theory Spec2Isabelle
  imports Main "HOL-Library.Char_ord" "HOL-Library.List_Lexorder"
begin

section \<open>The persistent store\<close>

text \<open>
  The tables the match service reads and writes, one record per row type. Field names are
  the column names of the source, prefixed with the table alias its SQL uses
  (\<open>m\<close> matches, \<open>me\<close> match_events, \<open>p\<close> pemain, \<open>pe\<close> pemain_event, \<open>et\<close> event_teams,
  \<open>t\<close> teams, \<open>ec\<close> event_categories, \<open>k\<close> klasemen, \<open>ml\<close> match_lineup,
  \<open>msl\<close> match_staff_lineup, \<open>b\<close> brackets). Statuses and event kinds are the string
  literals of the source: \<open>belum_main\<close> (scheduled), \<open>sedang_main\<close> (live), \<open>selesai\<close>
  (finished); \<open>GOL\<close>, \<open>BUNUH_DIRI\<close> (own goal), \<open>KUNING\<close> (yellow card), \<open>MERAH\<close> (red card).
  A DATETIME such as \<open>waktu\<close> is the second it denotes. \<open>None\<close> in a column is SQL NULL.
  The columns \<open>created_at\<close> and \<open>updated_at\<close> (the clock of the store) are left out.
\<close>

record match_row =
  m_id :: nat
  m_id_kategori :: nat
  m_team_1 :: "nat option"
  m_team_2 :: "nat option"
  m_waktu :: "int option"
  m_grup :: "string option"
  m_status :: string
  m_skor_1 :: int
  m_skor_2 :: int
  m_created_by :: nat
  m_updated_by :: "nat option"

record match_event_row =
  me_id :: nat
  me_id_match :: nat
  me_id_kategori :: nat
  me_id_team :: nat
  me_id_pemain :: nat
  me_jenis :: string
  me_menit :: int
  me_created_by :: nat

record pemain_row =
  p_id :: nat
  p_nama_pemain :: string

record pemain_event_row =
  pe_id_pemain :: nat
  pe_id_kategori :: nat
  pe_id_team :: nat
  pe_no_punggung :: "int option"
  pe_jumlah_gol :: int

record match_lineup_row =
  ml_id_match :: nat
  ml_id_pemain_event :: nat

record match_staff_lineup_row =
  msl_id_match :: nat
  msl_id_staff_event :: nat

record team_row =
  t_id :: nat
  t_nama_club :: string

record event_team_row =
  et_id_team :: nat
  et_id_kategori :: nat
  et_grup :: string

record event_category_row =
  ec_id :: nat
  ec_tipe_final :: string

record klasemen_row =
  k_id_team :: nat
  k_id_kategori :: nat
  k_point :: int
  k_selisih :: int
  k_goal_masuk :: int

record bracket_row =
  b_id_kategori :: nat
  b_round :: string
  b_kode :: string
  b_team_1 :: "nat option"
  b_team_2 :: "nat option"
  b_match_id :: "nat option"
  b_status :: string

text \<open>
  The store: every table is the list of its rows in insertion order; \<open>matches_seq\<close> and
  \<open>match_events_seq\<close> are the AUTO_INCREMENT counters that give \<open>insertId\<close>. Column
  constraints and foreign keys are not part of the source and are not modelled: every
  INSERT is accepted.
\<close>

record database =
  matches :: "match_row list"
  matches_seq :: nat
  match_events :: "match_event_row list"
  match_events_seq :: nat
  pemain :: "pemain_row list"
  pemain_event :: "pemain_event_row list"
  match_lineup :: "match_lineup_row list"
  match_staff_lineup :: "match_staff_lineup_row list"
  teams :: "team_row list"
  event_teams :: "event_team_row list"
  event_categories :: "event_category_row list"
  klasemen :: "klasemen_row list"
  brackets :: "bracket_row list"

text \<open>
  What the service throws: \<open>new AppError(message, statusCode)\<close>, or the \<open>RangeError\<close> of
  \<open>Date.prototype.toISOString\<close> on an invalid date.
\<close>

datatype error = AppError string nat | RangeError string

subsection \<open>The two ways the service queries\<close>

text \<open>
  \<open>Database.query\<close> runs \<open>pool.execute\<close> and returns the first element of what the driver
  resolves to (\<open>const [results] = await this.pool.execute(sql, params); return results\<close>):
  for a SELECT, the array of its rows.

  \<open>Database.transaction\<close> hands its callback the pool connection itself, so
  \<open>connection.query\<close> inside a transaction resolves to the driver's own two-element array
  \<open>[rows, fields]\<close> for a SELECT and \<open>[header, undefined]\<close> for an INSERT, UPDATE or DELETE
  (the source reads \<open>insertId\<close> and \<open>affectedRows\<close> from \<open>const [result] = ...\<close>). Both
  elements of a SELECT's result are arrays: the rows, and the descriptions of the
  selected columns.
\<close>

datatype 'r result_part = Rows "'r list" | Fields "string list"

definition connection_query :: "string list \<Rightarrow> 'r list \<Rightarrow> 'r result_part list" where
  "connection_query columns rows = [Rows rows, Fields columns]"

text \<open>
  \<open>const [x] = xs\<close>: the first element, \<open>undefined\<close> (\<open>None\<close>) for an empty array. A row
  and an array are objects, hence truthy: \<open>!x\<close> holds exactly when \<open>x\<close> is \<open>None\<close>.
\<close>

definition first_element :: "'a list \<Rightarrow> 'a option" where
  "first_element xs = (case xs of [] \<Rightarrow> None | x # rest \<Rightarrow> Some x)"

text \<open>
  Reading a column name from a part of a query result, as in \<open>teams[i].id_team\<close> or
  \<open>category.tipe_final\<close>: the part is an array, not a row, and an array has no property
  of that name, so the value is \<open>undefined\<close> whatever the rows hold.
\<close>

fun column :: "('r \<Rightarrow> 'v) \<Rightarrow> 'r result_part \<Rightarrow> 'v option" where
  "column f (Rows rows) = None"
| "column f (Fields columns) = None"

text \<open>
  \<open>Database.transaction\<close>: the callback runs on the store; when it throws, the
  transaction is rolled back (the store is the one before the call) and the error is
  rethrown; otherwise its writes are committed and its result returned. Calls run one
  after the other.
\<close>

definition transaction ::
  "(database \<Rightarrow> error + ('a \<times> database)) \<Rightarrow> database \<Rightarrow> (error + 'a) \<times> database" where
  "transaction callback db =
     (case callback db of
        Inl e \<Rightarrow> (Inl e, db)
      | Inr (r, db') \<Rightarrow> (Inr r, db'))"

text \<open>
  \<open>getMatchById\<close>: the row of \<open>matches\<close> with the given id (the query's LEFT JOINs only
  add display columns), or \<open>null\<close>. It goes through \<open>Database.query\<close>, that is through the
  pool and not through the connection of the transaction that calls it: it reads the
  committed store, which inside a transaction is the store the transaction started from.
\<close>

definition getMatchById :: "database \<Rightarrow> nat \<Rightarrow> match_row option" where
  "getMatchById db i = find (\<lambda>m. m_id m = i) (matches db)"

section \<open>The event ledger\<close>

text \<open>The request body of \<open>addMatchEvent\<close>, with numeric ids.\<close>

record event_data =
  ed_id_team :: nat
  ed_id_pemain :: nat
  ed_jenis :: string
  ed_menit :: int

text \<open>
  \<open>updateScoreFromEvent\<close>: \<open>scoreField = scoringTeam === match.team_1 ? 'skor_1' : 'skor_2'\<close>,
  then \<open>UPDATE matches SET scoreField = scoreField + 1 WHERE id = matchId\<close>. The scoring
  team is the event's team or a team column of the match, which may be NULL.
\<close>

definition updateScoreFromEvent ::
  "database \<Rightarrow> nat \<Rightarrow> nat option \<Rightarrow> match_row \<Rightarrow> database" where
  "updateScoreFromEvent db matchId scoringTeam match =
     db\<lparr>matches :=
          map (\<lambda>m. if m_id m = matchId
                    then (if scoringTeam = m_team_1 match
                          then m\<lparr>m_skor_1 := m_skor_1 m + 1\<rparr>
                          else m\<lparr>m_skor_2 := m_skor_2 m + 1\<rparr>)
                    else m)
              (matches db)\<rparr>"

text \<open>
  \<open>updatePlayerStats\<close>: for \<open>GOL\<close> only,
  \<open>UPDATE pemain_event SET jumlah_gol = jumlah_gol + 1 WHERE id_pemain = ? AND id_kategori = ?\<close>.
\<close>

definition updatePlayerStats :: "database \<Rightarrow> nat \<Rightarrow> nat \<Rightarrow> string \<Rightarrow> database" where
  "updatePlayerStats db playerId kategoriId eventType =
     (if eventType = ''GOL''
      then db\<lparr>pemain_event :=
                map (\<lambda>p. if pe_id_pemain p = playerId \<and> pe_id_kategori p = kategoriId
                          then p\<lparr>pe_jumlah_gol := pe_jumlah_gol p + 1\<rparr>
                          else p)
                    (pemain_event db)\<rparr>
      else db)"

text \<open>
  The rows of the player check of \<open>addMatchEvent\<close>:
  \<open>SELECT pe.id_team FROM pemain_event pe WHERE pe.id_pemain = ? AND pe.id_kategori = ?
  AND pe.id_team IN (?, ?)\<close> with the match's category and its two teams.
\<close>

definition playerQuery :: "database \<Rightarrow> nat \<Rightarrow> match_row \<Rightarrow> pemain_event_row list" where
  "playerQuery db playerId match =
     filter (\<lambda>p. pe_id_pemain p = playerId \<and> pe_id_kategori p = m_id_kategori match \<and>
                  (Some (pe_id_team p) = m_team_1 match \<or> Some (pe_id_team p) = m_team_2 match))
            (pemain_event db)"

text \<open>
  The INSERT of \<open>addMatchEvent\<close>; the header's \<open>insertId\<close> is the counter's next value.
\<close>

definition insertMatchEvent ::
  "database \<Rightarrow> nat \<Rightarrow> match_row \<Rightarrow> event_data \<Rightarrow> nat \<Rightarrow> nat \<times> database" where
  "insertMatchEvent db matchId match eventData userId =
     (let insertId = Suc (match_events_seq db);
          row = \<lparr>me_id = insertId, me_id_match = matchId,
                 me_id_kategori = m_id_kategori match, me_id_team = ed_id_team eventData,
                 me_id_pemain = ed_id_pemain eventData, me_jenis = ed_jenis eventData,
                 me_menit = ed_menit eventData, me_created_by = userId\<rparr>
      in (insertId, db\<lparr>match_events := match_events db @ [row],
                       match_events_seq := insertId\<rparr>))"

text \<open>
  The rows of the final SELECT of \<open>addMatchEvent\<close>: the event row with the player's name
  (JOIN \<open>pemain\<close>), the shirt number of the player's registration under the event's team
  and category (LEFT JOIN \<open>pemain_event\<close>, NULL when there is none) and the team's name
  (JOIN \<open>teams\<close>).
\<close>

record event_detail_row =
  det_event :: match_event_row
  det_nama_pemain :: string
  det_no_punggung :: "int option"
  det_team_name :: string

definition eventDetailQuery :: "database \<Rightarrow> nat \<Rightarrow> event_detail_row list" where
  "eventDetailQuery db eventId =
     concat (map (\<lambda>me.
       concat (map (\<lambda>p.
         concat (map (\<lambda>no.
           map (\<lambda>t. \<lparr>det_event = me, det_nama_pemain = p_nama_pemain p,
                      det_no_punggung = no, det_team_name = t_nama_club t\<rparr>)
               (filter (\<lambda>t. t_id t = me_id_team me) (teams db)))
           (let pes = filter (\<lambda>pe. pe_id_pemain pe = p_id p \<and> pe_id_team pe = me_id_team me \<and>
                                     pe_id_kategori pe = me_id_kategori me)
                             (pemain_event db)
            in if pes = [] then [None] else map pe_no_punggung pes)))
         (filter (\<lambda>p. p_id p = me_id_pemain me) (pemain db))))
       (filter (\<lambda>me. me_id me = eventId) (match_events db)))"

text \<open>
  \<open>addMatchEvent\<close>, in the order of the source. The match must exist (404) and be
  \<open>sedang_main\<close> (400). The player check binds \<open>player\<close> to the first element of the
  result of \<open>connection.query\<close>, which is the array of the selected rows, and throws (400)
  when \<open>!player\<close>. Then the event row is inserted; a \<open>GOL\<close> credits \<open>eventData.id_team\<close>, a
  \<open>BUNUH_DIRI\<close> credits \<open>eventData.id_team === match.team_1 ? match.team_2 : match.team_1\<close>;
  player statistics are updated for both kinds (a no-op for \<open>BUNUH_DIRI\<close>). The result is
  \<open>eventDetail\<close>, again the first element of a query result.
\<close>

definition addMatchEvent_body ::
  "nat \<Rightarrow> event_data \<Rightarrow> nat \<Rightarrow> database \<Rightarrow>
   error + (event_detail_row result_part option \<times> database)" where
  "addMatchEvent_body matchId eventData userId db =
     (case getMatchById db matchId of
        None \<Rightarrow> Inl (AppError ''Match not found'' 404)
      | Some match \<Rightarrow>
          if m_status match \<noteq> ''sedang_main''
          then Inl (AppError ''Match is not in progress'' 400)
          else
            (let player = first_element (connection_query [''id_team'']
                            (playerQuery db (ed_id_pemain eventData) match))
             in if player = None
                then Inl (AppError ''Player not found in this match'' 400)
                else
                  (let (insertId, db1) = insertMatchEvent db matchId match eventData userId;
                       db2 = (if ed_jenis eventData = ''GOL''
                              then updateScoreFromEvent db1 matchId
                                     (Some (ed_id_team eventData)) match
                              else if ed_jenis eventData = ''BUNUH_DIRI''
                              then (let opponentTeam =
                                          (if Some (ed_id_team eventData) = m_team_1 match
                                           then m_team_2 match else m_team_1 match)
                                    in updateScoreFromEvent db1 matchId opponentTeam match)
                              else db1);
                       db3 = (if ed_jenis eventData = ''GOL'' \<or> ed_jenis eventData = ''BUNUH_DIRI''
                              then updatePlayerStats db2 (ed_id_pemain eventData)
                                     (m_id_kategori match) (ed_jenis eventData)
                              else db2);
                       eventDetail = first_element (connection_query
                                       [''id'', ''id_match'', ''id_kategori'', ''id_team'',
                                        ''id_pemain'', ''jenis'', ''menit'', ''created_by'',
                                        ''nama_pemain'', ''no_punggung'', ''team_name'']
                                       (eventDetailQuery db3 insertId))
                   in Inr (eventDetail, db3))))"

definition addMatchEvent ::
  "database \<Rightarrow> nat \<Rightarrow> event_data \<Rightarrow> nat \<Rightarrow>
   (error + event_detail_row result_part option) \<times> database" where
  "addMatchEvent db matchId eventData userId =
     transaction (addMatchEvent_body matchId eventData userId) db"





text \<open>
  Whether a player has a \<open>pemain_event\<close> row for a category under a team (the roster's
  \<open>isPlayerEligible(playerId, categoryId, teamId)\<close>).
\<close>

definition registered :: "database \<Rightarrow> nat \<Rightarrow> nat \<Rightarrow> nat \<Rightarrow> bool" where
  "registered db playerId kategoriId teamId =
     (\<exists>p \<in> set (pemain_event db).
        pe_id_pemain p = playerId \<and> pe_id_kategori p = kategoriId \<and> pe_id_team p = teamId)"

section \<open>Updating, overriding and deleting a match\<close>

text \<open>
  The request body of \<open>updateMatch\<close>, restricted to its \<open>allowedFields\<close>
  (\<open>waktu\<close>, \<open>status\<close>, \<open>grup\<close>, \<open>skor_1\<close>, \<open>skor_2\<close>); \<open>None\<close> is an absent key. Other keys
  are ignored by the source.
\<close>

record update_data =
  ud_waktu :: "int option"
  ud_status :: "string option"
  ud_grup :: "string option"
  ud_skor_1 :: "int option"
  ud_skor_2 :: "int option"

definition set_fields :: "update_data \<Rightarrow> nat \<Rightarrow> match_row \<Rightarrow> match_row" where
  "set_fields updateData userId m =
     m\<lparr>m_waktu := (case ud_waktu updateData of None \<Rightarrow> m_waktu m | Some w \<Rightarrow> Some w),
       m_status := (case ud_status updateData of None \<Rightarrow> m_status m | Some s \<Rightarrow> s),
       m_grup := (case ud_grup updateData of None \<Rightarrow> m_grup m | Some g \<Rightarrow> Some g),
       m_skor_1 := (case ud_skor_1 updateData of None \<Rightarrow> m_skor_1 m | Some v \<Rightarrow> v),
       m_skor_2 := (case ud_skor_2 updateData of None \<Rightarrow> m_skor_2 m | Some v \<Rightarrow> v),
       m_updated_by := Some userId\<rparr>"

text \<open>
  \<open>updateMatch\<close>: \<open>null\<close> for an unknown id; a finished match is refused unless the body
  itself carries \<open>status: 'selesai'\<close>; a body with no allowed field is refused; otherwise
  the named columns are set. The row returned is read by \<open>getMatchById\<close> before the
  commit, from the store the transaction started from.
\<close>

definition updateMatch_body ::
  "nat \<Rightarrow> update_data \<Rightarrow> nat \<Rightarrow> database \<Rightarrow> error + (match_row option \<times> database)" where
  "updateMatch_body i updateData userId db =
     (case getMatchById db i of
        None \<Rightarrow> Inr (None, db)
      | Some currentMatch \<Rightarrow>
          if m_status currentMatch = ''selesai'' \<and> ud_status updateData \<noteq> Some ''selesai''
          then Inl (AppError ''Cannot modify finished match'' 400)
          else if ud_waktu updateData = None \<and> ud_status updateData = None \<and>
                  ud_grup updateData = None \<and> ud_skor_1 updateData = None \<and>
                  ud_skor_2 updateData = None
          then Inl (AppError ''No valid fields to update'' 400)
          else
            (let db' = db\<lparr>matches :=
                          map (\<lambda>m. if m_id m = i then set_fields updateData userId m else m)
                              (matches db)\<rparr>
             in Inr (getMatchById db i, db')))"

definition updateMatch ::
  "database \<Rightarrow> nat \<Rightarrow> update_data \<Rightarrow> nat \<Rightarrow> (error + match_row option) \<times> database" where
  "updateMatch db i updateData userId = transaction (updateMatch_body i updateData userId) db"

text \<open>
  \<open>updateScore\<close>: \<open>null\<close> for an unknown id; otherwise
  \<open>UPDATE matches SET skor_1 = ?, skor_2 = ?, updated_by = ? WHERE id = ?\<close>, and the row
  as \<open>getMatchById\<close> reads it before the commit.
\<close>

definition updateScore_body ::
  "nat \<Rightarrow> int \<Rightarrow> int \<Rightarrow> nat \<Rightarrow> database \<Rightarrow> error + (match_row option \<times> database)" where
  "updateScore_body i skor1 skor2 userId db =
     (case getMatchById db i of
        None \<Rightarrow> Inr (None, db)
      | Some match \<Rightarrow>
          (let db' = db\<lparr>matches :=
                        map (\<lambda>m. if m_id m = i
                                  then m\<lparr>m_skor_1 := skor1, m_skor_2 := skor2,
                                         m_updated_by := Some userId\<rparr>
                                  else m)
                            (matches db)\<rparr>
           in Inr (getMatchById db i, db')))"

definition updateScore ::
  "database \<Rightarrow> nat \<Rightarrow> int \<Rightarrow> int \<Rightarrow> nat \<Rightarrow> (error + match_row option) \<times> database" where
  "updateScore db i skor1 skor2 userId = transaction (updateScore_body i skor1 skor2 userId) db"

text \<open>
  \<open>deleteMatch\<close>: \<open>false\<close> for an unknown id; a match that is \<open>sedang_main\<close> is refused;
  otherwise the match's rows of \<open>match_events\<close>, \<open>match_lineup\<close> and \<open>match_staff_lineup\<close>
  are deleted, then the match row, and the result is \<open>affectedRows > 0\<close>.
\<close>

definition deleteMatch_body :: "nat \<Rightarrow> nat \<Rightarrow> database \<Rightarrow> error + (bool \<times> database)" where
  "deleteMatch_body i userId db =
     (case getMatchById db i of
        None \<Rightarrow> Inr (False, db)
      | Some match \<Rightarrow>
          if m_status match = ''sedang_main''
          then Inl (AppError ''Cannot delete match in progress'' 400)
          else
            (let db1 = db\<lparr>match_events := filter (\<lambda>e. me_id_match e \<noteq> i) (match_events db)\<rparr>;
                 db2 = db1\<lparr>match_lineup := filter (\<lambda>l. ml_id_match l \<noteq> i) (match_lineup db1)\<rparr>;
                 db3 = db2\<lparr>match_staff_lineup :=
                             filter (\<lambda>l. msl_id_match l \<noteq> i) (match_staff_lineup db2)\<rparr>;
                 affectedRows = length (filter (\<lambda>m. m_id m = i) (matches db3));
                 db4 = db3\<lparr>matches := filter (\<lambda>m. m_id m \<noteq> i) (matches db3)\<rparr>
             in Inr (0 < affectedRows, db4)))"

definition deleteMatch :: "database \<Rightarrow> nat \<Rightarrow> nat \<Rightarrow> (error + bool) \<times> database" where
  "deleteMatch db i userId = transaction (deleteMatch_body i userId) db"

section \<open>The schedule generator\<close>

subsection \<open>Dates\<close>

text \<open>
  A \<open>Date\<close> holds a time value: milliseconds since the epoch in UTC, or NaN (\<open>None\<close>) for
  an invalid date. The time zone of the host is a parameter: its offset in milliseconds
  at a UTC instant and at a local time value. \<open>getMinutes\<close> and \<open>setMinutes\<close> work on the
  local time, as the language defines them; \<open>setMinutes\<close> clips the result to the range of
  valid time values. Minutes are integers.
\<close>

record timezone =
  tz_offset_utc :: "int \<Rightarrow> int"
  tz_offset_local :: "int \<Rightarrow> int"

definition LocalTime :: "timezone \<Rightarrow> int \<Rightarrow> int" where
  "LocalTime tz t = t + tz_offset_utc tz t"

definition UTC :: "timezone \<Rightarrow> int \<Rightarrow> int" where
  "UTC tz t = t - tz_offset_local tz t"

definition Day :: "int \<Rightarrow> int" where
  "Day t = t div 86400000"

definition HourFromTime :: "int \<Rightarrow> int" where
  "HourFromTime t = (t div 3600000) mod 24"

definition MinFromTime :: "int \<Rightarrow> int" where
  "MinFromTime t = (t div 60000) mod 60"

definition SecFromTime :: "int \<Rightarrow> int" where
  "SecFromTime t = (t div 1000) mod 60"

definition msFromTime :: "int \<Rightarrow> int" where
  "msFromTime t = t mod 1000"

definition MakeTime :: "int \<Rightarrow> int \<Rightarrow> int \<Rightarrow> int \<Rightarrow> int" where
  "MakeTime hour minute sec ms = hour * 3600000 + minute * 60000 + sec * 1000 + ms"

definition MakeDate :: "int \<Rightarrow> int \<Rightarrow> int" where
  "MakeDate day time = day * 86400000 + time"

definition TimeClip :: "int \<Rightarrow> int option" where
  "TimeClip t = (if \<bar>t\<bar> \<le> 8640000000000000 then Some t else None)"

definition getMinutes :: "timezone \<Rightarrow> int \<Rightarrow> int" where
  "getMinutes tz t = MinFromTime (LocalTime tz t)"

definition setMinutes :: "timezone \<Rightarrow> int \<Rightarrow> int \<Rightarrow> int option" where
  "setMinutes tz t minute =
     (let local = LocalTime tz t
      in TimeClip (UTC tz (MakeDate (Day local)
           (MakeTime (HourFromTime local) minute (SecFromTime local) (msFromTime local)))))"

text \<open>
  \<open>date.toISOString().slice(0, 19).replace('T', ' ')\<close> for a valid date: the UTC date and
  time to the second, which the store keeps as that second. (The years 0000 to 9999, where
  \<open>toISOString\<close> writes the year with four digits.)
\<close>

definition datetime_second :: "int \<Rightarrow> int" where
  "datetime_second t = t div 1000"

subsection \<open>Round robin\<close>

text \<open>
  The options of \<open>generateGroupMatches\<close>. \<open>go_match_day_start\<close> is the time value of
  \<open>new Date(match_day_start)\<close> and \<open>go_kickoff\<close> that of
  \<open>new Date(`${match_day_start}T${jam_awal}`)\<close> (with the default \<open>jam_awal\<close> when the key
  is absent), \<open>None\<close> when the string is not a date; \<open>go_jeda_menit\<close> is \<open>None\<close> when the
  key is absent (the default is 90).
\<close>

record group_options =
  go_id_kategori :: nat
  go_grup :: string
  go_match_day_start :: "int option"
  go_kickoff :: "int option"
  go_jeda_menit :: "int option"

text \<open>An element of the array \<open>generateGroupMatches\<close> returns.\<close>

record generated_match =
  gm_id :: nat
  gm_team_1 :: "string option"
  gm_team_2 :: "string option"
  gm_waktu :: int
  gm_grup :: string

text \<open>
  The rows of
  \<open>SELECT et.id_team, t.nama_club FROM event_teams et JOIN teams t ON et.id_team = t.id
  WHERE et.id_kategori = ? AND et.grup = ? ORDER BY t.nama_club\<close>; names are compared
  by character code.
\<close>

definition teamsQuery :: "database \<Rightarrow> nat \<Rightarrow> string \<Rightarrow> (nat \<times> string) list" where
  "teamsQuery db kategori grup =
     sort_key snd
       (concat (map (\<lambda>et. map (\<lambda>t. (et_id_team et, t_nama_club t))
                               (filter (\<lambda>t. t_id t = et_id_team et) (teams db)))
                    (filter (\<lambda>et. et_id_kategori et = kategori \<and> et_grup et = grup)
                            (event_teams db))))"

text \<open>
  The index pairs of
  \<open>for (let i = 0; i < n; i++) for (let j = i + 1; j < n; j++)\<close>, in the order the body runs.
\<close>

definition pairings :: "nat \<Rightarrow> (nat \<times> nat) list" where
  "pairings n = concat (map (\<lambda>i. map (\<lambda>j. (i, j)) [Suc i..<n]) [0..<n])"

text \<open>
  The loop body, on the state of the loop (the store, \<open>currentTime\<close> and the array
  \<open>matches\<close>) or the error already thrown. \<open>startDate.toISOString()\<close> and
  \<open>currentTime.toISOString()\<close> throw on an invalid date. The fixture row is inserted with
  \<open>teams[i].id_team\<close> and \<open>teams[j].id_team\<close> (the driver binds \<open>undefined\<close> as NULL), status
  \<open>belum_main\<close> and 0-0; its summary is pushed; \<open>currentTime\<close> moves by
  \<open>currentTime.setMinutes(currentTime.getMinutes() + jeda_menit)\<close>. The array \<open>teams\<close> of
  the source is \<open>teams'\<close> here.
\<close>

definition group_step ::
  "timezone \<Rightarrow> nat \<Rightarrow> string \<Rightarrow> nat \<Rightarrow> int \<Rightarrow> int option \<Rightarrow>
   (nat \<times> string) result_part list \<Rightarrow>
   error + (database \<times> int option \<times> generated_match list) \<Rightarrow> nat \<times> nat \<Rightarrow>
   error + (database \<times> int option \<times> generated_match list)" where
  "group_step tz kategori grup userId jeda_menit startDate teams' st ij =
     (case st of
        Inl e \<Rightarrow> Inl e
      | Inr (db, currentTime, out) \<Rightarrow>
          (case startDate of
             None \<Rightarrow> Inl (RangeError ''Invalid time value'')
           | Some day \<Rightarrow>
               (case currentTime of
                  None \<Rightarrow> Inl (RangeError ''Invalid time value'')
                | Some t \<Rightarrow>
                    (let waktu = datetime_second t;
                         insertId = Suc (matches_seq db);
                         row = \<lparr>m_id = insertId, m_id_kategori = kategori,
                                m_team_1 = column fst (teams' ! fst ij),
                                m_team_2 = column fst (teams' ! snd ij),
                                m_waktu = Some waktu, m_grup = Some grup,
                                m_status = ''belum_main'', m_skor_1 = 0, m_skor_2 = 0,
                                m_created_by = userId, m_updated_by = None\<rparr>
                     in Inr (db\<lparr>matches := matches db @ [row], matches_seq := insertId\<rparr>,
                             setMinutes tz t (getMinutes tz t + jeda_menit),
                             out @ [\<lparr>gm_id = insertId,
                                      gm_team_1 = column snd (teams' ! fst ij),
                                      gm_team_2 = column snd (teams' ! snd ij),
                                      gm_waktu = waktu, gm_grup = grup\<rparr>])))))"

text \<open>
  \<open>generateGroupMatches\<close>: \<open>teams\<close> is what \<open>connection.query\<close> resolves to, taken whole; \<open>teams.length\<close> is the length of that array and the double loop runs over
  its indices.
\<close>

definition generateGroupMatches_body ::
  "timezone \<Rightarrow> group_options \<Rightarrow> nat \<Rightarrow> database \<Rightarrow>
   error + (generated_match list \<times> database)" where
  "generateGroupMatches_body tz options userId db =
     (let jeda_menit = (case go_jeda_menit options of None \<Rightarrow> 90 | Some j \<Rightarrow> j);
          teams' = connection_query [''id_team'', ''nama_club'']
                     (teamsQuery db (go_id_kategori options) (go_grup options))
      in if length teams' < 2
         then Inl (AppError ''Not enough teams in group to generate matches'' 400)
         else
           (case foldl (group_step tz (go_id_kategori options) (go_grup options) userId
                          jeda_menit (go_match_day_start options) teams')
                       (Inr (db, go_kickoff options, [])) (pairings (length teams')) of
              Inl e \<Rightarrow> Inl e
            | Inr (db', currentTime, out) \<Rightarrow> Inr (out, db')))"

definition generateGroupMatches ::
  "timezone \<Rightarrow> database \<Rightarrow> group_options \<Rightarrow> nat \<Rightarrow>
   (error + generated_match list) \<times> database" where
  "generateGroupMatches tz db options userId =
     transaction (generateGroupMatches_body tz options userId) db"

subsection \<open>Bracket seeding\<close>

text \<open>The rows of \<open>SELECT * FROM event_categories WHERE id = ?\<close>.\<close>

definition categoryQuery :: "database \<Rightarrow> nat \<Rightarrow> event_category_row list" where
  "categoryQuery db kategori = filter (\<lambda>c. ec_id c = kategori) (event_categories db)"

text \<open>A row of the standings query: \<open>k.*\<close>, \<open>t.nama_club\<close>, \<open>et.grup\<close>.\<close>

record standing_row =
  s_id_team :: nat
  s_nama_club :: string
  s_grup :: string
  s_point :: int
  s_selisih :: int
  s_goal_masuk :: int

text \<open>
  The rows of
  \<open>SELECT k.*, t.nama_club, et.grup FROM klasemen k JOIN teams t ON k.id_team = t.id
  JOIN event_teams et ON k.id_team = et.id_team AND et.id_kategori = k.id_kategori
  WHERE k.id_kategori = ? ORDER BY et.grup, k.point DESC, k.selisih DESC, k.goal_masuk DESC\<close>.
  The ORDER BY is four stable sorts, the least significant key first; group labels are
  compared by character code.
\<close>

definition standingsQuery :: "database \<Rightarrow> nat \<Rightarrow> standing_row list" where
  "standingsQuery db kategori =
     sort_key s_grup
       (sort_key (\<lambda>s. - s_point s)
          (sort_key (\<lambda>s. - s_selisih s)
             (sort_key (\<lambda>s. - s_goal_masuk s)
                (concat (map (\<lambda>k.
                   concat (map (\<lambda>t.
                     map (\<lambda>et. \<lparr>s_id_team = k_id_team k, s_nama_club = t_nama_club t,
                                  s_grup = et_grup et, s_point = k_point k,
                                  s_selisih = k_selisih k, s_goal_masuk = k_goal_masuk k\<rparr>)
                         (filter (\<lambda>et. et_id_team et = k_id_team k \<and>
                                        et_id_kategori et = k_id_kategori k)
                                 (event_teams db)))
                     (filter (\<lambda>t. t_id t = k_id_team k) (teams db))))
                   (filter (\<lambda>k. k_id_kategori k = kategori) (klasemen db)))))))"

text \<open>
  A value used as a property name: \<open>undefined\<close> names the property \<open>undefined\<close>.
\<close>

definition property_key :: "string option \<Rightarrow> string" where
  "property_key v = (case v of None \<Rightarrow> ''undefined'' | Some s \<Rightarrow> s)"

text \<open>
  The object \<open>groupStandings\<close> as the list of its own properties in creation order, and
  one step of \<open>standings.forEach\<close>, which visits the elements of the query result: a
  \<open>team.grup\<close> seen for the first time gets a new property; the element is pushed while
  its property holds fewer than two.
\<close>

definition add_standing ::
  "(string \<times> standing_row result_part list) list \<Rightarrow> standing_row result_part \<Rightarrow>
   (string \<times> standing_row result_part list) list" where
  "add_standing groupStandings team =
     (let grup = property_key (column s_grup team)
      in case map_of groupStandings grup of
           None \<Rightarrow> groupStandings @ [(grup, [team])]
         | Some ts \<Rightarrow>
             if length ts < 2
             then map (\<lambda>kv. if fst kv = grup then (fst kv, snd kv @ [team]) else kv)
                      groupStandings
             else groupStandings)"

text \<open>
  A property key that is a canonical array index (a decimal numeral without a leading
  zero, below \<open>2^32 - 1\<close>), and \<open>Object.values\<close>: the values of the array-index keys in
  ascending numeric order, then those of the other keys in creation order.
\<close>

definition array_index :: "string \<Rightarrow> nat option" where
  "array_index s =
     (let n = foldl (\<lambda>a c. 10 * a + (of_char c - 48)) (0::nat) s
      in if s \<noteq> [] \<and> list_all (\<lambda>c. CHR ''0'' \<le> c \<and> c \<le> CHR ''9'') s \<and>
            (hd s \<noteq> CHR ''0'' \<or> length s = 1) \<and> n < 4294967295
         then Some n else None)"

definition object_values :: "(string \<times> 'a) list \<Rightarrow> 'a list" where
  "object_values props =
     map snd (sort_key (\<lambda>kv. the (array_index (fst kv)))
                (filter (\<lambda>kv. array_index (fst kv) \<noteq> None) props) @
              filter (\<lambda>kv. array_index (fst kv) = None) props)"

text \<open>\<open>Object.values(groupStandings).flat()\<close>.\<close>

definition qualifiedTeams :: "standing_row result_part list \<Rightarrow> standing_row result_part list" where
  "qualifiedTeams standings = concat (object_values (foldl add_standing [] standings))"

text \<open>
  The comparator of the source on two elements of \<open>qualifiedTeams\<close>; a difference with
  an \<open>undefined\<close> operand is NaN (\<open>None\<close>). \<open>Array.prototype.sort\<close> with a comparator is a
  stable sort, here by insertion from the right (an element goes before the first one
  it does not compare greater than), and reads NaN as 0.
\<close>

definition difference :: "int option \<Rightarrow> int option \<Rightarrow> int option" where
  "difference x y =
     (case x of None \<Rightarrow> None
      | Some a \<Rightarrow> (case y of None \<Rightarrow> None | Some b \<Rightarrow> Some (a - b)))"

definition compareTeams ::
  "standing_row result_part \<Rightarrow> standing_row result_part \<Rightarrow> int option" where
  "compareTeams a b =
     (if column s_point b \<noteq> column s_point a
      then difference (column s_point b) (column s_point a)
      else if column s_selisih b \<noteq> column s_selisih a
      then difference (column s_selisih b) (column s_selisih a)
      else difference (column s_goal_masuk b) (column s_goal_masuk a))"

fun insert_by :: "('a \<Rightarrow> 'a \<Rightarrow> int option) \<Rightarrow> 'a \<Rightarrow> 'a list \<Rightarrow> 'a list" where
  "insert_by cmp x [] = [x]"
| "insert_by cmp x (y # ys) =
     (if (case cmp x y of None \<Rightarrow> 0 | Some v \<Rightarrow> v) \<le> 0
      then x # y # ys else y # insert_by cmp x ys)"

definition sort_by :: "('a \<Rightarrow> 'a \<Rightarrow> int option) \<Rightarrow> 'a list \<Rightarrow> 'a list" where
  "sort_by cmp xs = foldr (insert_by cmp) xs []"

definition sortedTeams :: "standing_row result_part list \<Rightarrow> standing_row result_part list" where
  "sortedTeams standings = take 4 (sort_by compareTeams (qualifiedTeams standings))"

text \<open>An element of the \<open>semifinals\<close> array the call returns.\<close>

record created_semifinal =
  cs_id :: nat
  cs_kode :: string
  cs_team_1 :: "nat option"
  cs_team_2 :: "nat option"

text \<open>
  The body of \<open>for (const match of semifinals)\<close>: the match row (group \<open>semifinal\<close>,
  \<open>belum_main\<close>, 0-0, no kickoff time), its bracket row, and the returned summary.
\<close>

definition insert_semifinal ::
  "nat \<Rightarrow> nat \<Rightarrow> created_semifinal list \<times> database \<Rightarrow> nat option \<times> nat option \<times> string \<Rightarrow>
   created_semifinal list \<times> database" where
  "insert_semifinal kategori userId st sf =
     (case (st, sf) of ((created, db), (team1, team2, kode)) \<Rightarrow>
        (let insertId = Suc (matches_seq db);
             row = \<lparr>m_id = insertId, m_id_kategori = kategori, m_team_1 = team1,
                    m_team_2 = team2, m_waktu = None, m_grup = Some ''semifinal'',
                    m_status = ''belum_main'', m_skor_1 = 0, m_skor_2 = 0,
                    m_created_by = userId, m_updated_by = None\<rparr>;
             bracket = \<lparr>b_id_kategori = kategori, b_round = ''semifinal'', b_kode = kode,
                        b_team_1 = team1, b_team_2 = team2,
                        b_match_id = Some insertId, b_status = ''belum_main''\<rparr>
         in (created @ [\<lparr>cs_id = insertId, cs_kode = kode, cs_team_1 = team1,
                          cs_team_2 = team2\<rparr>],
             db\<lparr>matches := matches db @ [row], matches_seq := insertId,
                brackets := brackets db @ [bracket]\<rparr>)))"

definition semifinals ::
  "standing_row result_part list \<Rightarrow> (nat option \<times> nat option \<times> string) list" where
  "semifinals seeds =
     [(column s_id_team (seeds ! 0), column s_id_team (seeds ! 3), ''SF1''),
      (column s_id_team (seeds ! 1), column s_id_team (seeds ! 2), ''SF2'')]"

definition finalBrackets :: "nat \<Rightarrow> bracket_row list" where
  "finalBrackets kategori =
     [\<lparr>b_id_kategori = kategori, b_round = ''final'', b_kode = ''F1'', b_team_1 = None,
       b_team_2 = None, b_match_id = None, b_status = ''menunggu''\<rparr>,
      \<lparr>b_id_kategori = kategori, b_round = ''juara_3'', b_kode = ''J3'', b_team_1 = None,
       b_team_2 = None, b_match_id = None, b_status = ''menunggu''\<rparr>]"

text \<open>
  \<open>generateBracketMatches\<close>. \<open>category\<close> is the first element of the result of
  \<open>connection.query\<close>; a missing one is refused (404), and so is one whose \<open>tipe_final\<close> is
  not \<open>final_four\<close> (400). \<open>standings\<close> is the whole result of the standings query; the
  first two elements of every \<open>grup\<close> qualify, and fewer than four qualifiers are refused
  (400); the best four by the comparator are seeded 1-4 and 2-3; two placeholder brackets
  follow. The \<open>type\<close> argument is only logged.
\<close>

definition generateBracketMatches_body ::
  "nat \<Rightarrow> nat \<Rightarrow> database \<Rightarrow> error + (created_semifinal list \<times> database)" where
  "generateBracketMatches_body kategori userId db =
     (case first_element (connection_query [''id'', ''tipe_final''] (categoryQuery db kategori)) of
        None \<Rightarrow> Inl (AppError ''Category not found'' 404)
      | Some category \<Rightarrow>
          if column ec_tipe_final category \<noteq> Some ''final_four''
          then Inl (AppError ''Category does not support bracket generation'' 400)
          else
            (let standings = connection_query
                               [''id_team'', ''id_kategori'', ''point'', ''selisih'',
                                ''goal_masuk'', ''nama_club'', ''grup'']
                               (standingsQuery db kategori)
             in if length (qualifiedTeams standings) < 4
                then Inl (AppError ''Not enough teams qualified for bracket'' 400)
                else
                  (case foldl (insert_semifinal kategori userId) ([], db)
                          (semifinals (sortedTeams standings)) of
                     (createdMatches, db1) \<Rightarrow>
                       Inr (createdMatches,
                            db1\<lparr>brackets := brackets db1 @ finalBrackets kategori\<rparr>))))"

definition generateBracketMatches ::
  "database \<Rightarrow> nat \<Rightarrow> nat \<Rightarrow> (error + created_semifinal list) \<times> database" where
  "generateBracketMatches db kategori userId =
     transaction (generateBracketMatches_body kategori userId) db"

section \<open>The broadcast coordinator\<close>

subsection \<open>Admission of new connections\<close>

text \<open>
  The entry \<open>{ count, lastReset }\<close> that \<open>setupMiddleware\<close> keeps per \<open>socket.handshake.address\<close>
  in \<open>this.connections\<close>; times are \<open>Date.now()\<close> in milliseconds.
\<close>

record client_entry =
  ce_count :: nat
  ce_lastReset :: int

text \<open>
  The rate-limiting middleware on one handshake of \<open>clientId\<close> at time \<open>now\<close>. The result
  is \<open>True\<close> when the handshake goes on (\<open>next()\<close>) and \<open>False\<close> when it is refused
  (\<open>next(new Error('Rate limit exceeded'))\<close>), with the table afterwards. The
  middleware reads and writes nothing but the table.
\<close>

definition rateLimit ::
  "(string \<rightharpoonup> client_entry) \<Rightarrow> string \<Rightarrow> int \<Rightarrow> bool \<times> (string \<rightharpoonup> client_entry)" where
  "rateLimit connections clientId now =
     (case connections clientId of
        None \<Rightarrow> (True, connections(clientId \<mapsto> \<lparr>ce_count = 1, ce_lastReset = now\<rparr>))
      | Some client \<Rightarrow>
          if 60000 < now - ce_lastReset client
          then (True, connections(clientId \<mapsto> \<lparr>ce_count = 1, ce_lastReset = now\<rparr>))
          else if 50 \<le> ce_count client
          then (False, connections)
          else (True, connections(clientId \<mapsto> client\<lparr>ce_count := ce_count client + 1\<rparr>)))"

text \<open>A sequence of handshakes (origin and time), with the decision taken on each.\<close>

fun handshakes ::
  "(string \<rightharpoonup> client_entry) \<Rightarrow> (string \<times> int) list \<Rightarrow> bool list \<times> (string \<rightharpoonup> client_entry)" where
  "handshakes connections [] = ([], connections)"
| "handshakes connections (h # hs) =
     (case rateLimit connections (fst h) (snd h) of
        (ok, connections1) \<Rightarrow>
          (case handshakes connections1 hs of
             (oks, connections2) \<Rightarrow> (ok # oks, connections2)))"

text \<open>
  The number of handshakes of an origin that were admitted at a time in the interval
  \<open>(lo, hi]\<close>.
\<close>

definition admitted_between ::
  "bool list \<Rightarrow> (string \<times> int) list \<Rightarrow> string \<Rightarrow> int \<Rightarrow> int \<Rightarrow> nat" where
  "admitted_between oks hs clientId lo hi =
     length (filter (\<lambda>(ok, h). ok \<and> fst h = clientId \<and> lo < snd h \<and> snd h \<le> hi)
                    (zip oks hs))"

subsection \<open>Joining rooms\<close>

text \<open>
  A connected socket: its id and the rooms it is in. The map \<open>joinCooldowns\<close> belongs to
  the connection and is keyed by \<open>socket.id + room\<close>.
\<close>

record socket_state =
  sk_id :: string
  sk_rooms :: "string set"

text \<open>
  \<open>joinWithCooldown\<close>, with the value of \<open>Date.now()\<close> as last argument:
  \<open>lastJoin = cooldowns.get(socket.id + room) || 0\<close>; within the cooldown nothing
  happens; otherwise the time is stored and the socket joins the room.
\<close>

definition joinWithCooldown ::
  "socket_state \<Rightarrow> string \<Rightarrow> (string \<rightharpoonup> int) \<Rightarrow> int \<Rightarrow> int \<Rightarrow>
   socket_state \<times> (string \<rightharpoonup> int)" where
  "joinWithCooldown socket room cooldowns cooldownMs now =
     (let lastJoin = (case cooldowns (sk_id socket @ room) of None \<Rightarrow> 0 | Some t \<Rightarrow> t)
      in if now - lastJoin < cooldownMs
         then (socket, cooldowns)
         else (socket\<lparr>sk_rooms := insert room (sk_rooms socket)\<rparr>,
               cooldowns(sk_id socket @ room \<mapsto> now)))"

text \<open>
  The four messages \<open>handleRoomJoining\<close> listens to, and its handlers; the argument is
  the id as the template literal renders it.
\<close>

datatype client_message =
  Join_match string | Leave_match string | Join_category string | Leave_category string

fun handleRoomJoining ::
  "socket_state \<times> (string \<rightharpoonup> int) \<Rightarrow> client_message \<times> int \<Rightarrow>
   socket_state \<times> (string \<rightharpoonup> int)" where
  "handleRoomJoining (socket, joinCooldowns) (Join_match matchId, now) =
     joinWithCooldown socket (''match_'' @ matchId) joinCooldowns 2000 now"
| "handleRoomJoining (socket, joinCooldowns) (Leave_match matchId, now) =
     (socket\<lparr>sk_rooms := sk_rooms socket - {''match_'' @ matchId}\<rparr>, joinCooldowns)"
| "handleRoomJoining (socket, joinCooldowns) (Join_category categoryId, now) =
     joinWithCooldown socket (''category_'' @ categoryId) joinCooldowns 2000 now"
| "handleRoomJoining (socket, joinCooldowns) (Leave_category categoryId, now) =
     (socket\<lparr>sk_rooms := sk_rooms socket - {''category_'' @ categoryId}\<rparr>, joinCooldowns)"

text \<open>The room a message asks to join, if it is a join.\<close>

fun room_joined :: "client_message \<Rightarrow> string option" where
  "room_joined (Join_match matchId) = Some (''match_'' @ matchId)"
| "room_joined (Join_category categoryId) = Some (''category_'' @ categoryId)"
| "room_joined (Leave_match matchId) = None"
| "room_joined (Leave_category categoryId) = None"

text \<open>
  A socket as \<open>setupConnectionHandling\<close> leaves it (in room \<open>general\<close>, no cooldown
  recorded), and four messages of one client about match 7: join, join again 1.5 s
  later, leave, and join again 1 s after the second join.
\<close>

definition fresh_socket :: "socket_state \<times> (string \<rightharpoonup> int)" where
  "fresh_socket = (\<lparr>sk_id = ''s1'', sk_rooms = {''general''}\<rparr>, Map.empty)"

definition example_messages :: "(client_message \<times> int) list" where
  "example_messages =
     [(Join_match ''7'', 10000), (Join_match ''7'', 11500),
      (Leave_match ''7'', 12000), (Join_match ''7'', 12500)]"

text \<open>
  Handshakes of one origin: one at time 0, forty-nine at 59 s, fifty at 60.001 s.
\<close>

definition example_handshakes :: "(string \<times> int) list" where
  "example_handshakes =
     (''10.0.0.1'', 0) # replicate 49 (''10.0.0.1'', 59000) @ replicate 50 (''10.0.0.1'', 60001)"

section \<open>Notions of the specification and example inputs\<close>

text \<open>
  A store with a live match (id 1) and a finished match (id 2) between teams 1 and 2 of
  category 1; player 7 is registered under team 1, player 8 under team 2, player 5 under
  no team; the finished match has one ledger row, one lineup row and one staff row.
\<close>

definition example_live_match :: match_row where
  "example_live_match =
     \<lparr>m_id = 1, m_id_kategori = 1, m_team_1 = Some 1, m_team_2 = Some 2, m_waktu = Some 0,
      m_grup = Some ''A'', m_status = ''sedang_main'', m_skor_1 = 0, m_skor_2 = 0,
      m_created_by = 9, m_updated_by = None\<rparr>"

definition example_finished_match :: match_row where
  "example_finished_match =
     \<lparr>m_id = 2, m_id_kategori = 1, m_team_1 = Some 1, m_team_2 = Some 2, m_waktu = Some 0,
      m_grup = Some ''A'', m_status = ''selesai'', m_skor_1 = 1, m_skor_2 = 0,
      m_created_by = 9, m_updated_by = None\<rparr>"

definition example_store :: database where
  "example_store =
     \<lparr>matches = [example_live_match, example_finished_match],
      matches_seq = 2,
      match_events =
        [\<lparr>me_id = 1, me_id_match = 2, me_id_kategori = 1, me_id_team = 1, me_id_pemain = 7,
          me_jenis = ''GOL'', me_menit = 12, me_created_by = 9\<rparr>],
      match_events_seq = 1,
      pemain = [\<lparr>p_id = 5, p_nama_pemain = ''Eko''\<rparr>, \<lparr>p_id = 7, p_nama_pemain = ''Gilang''\<rparr>,
                \<lparr>p_id = 8, p_nama_pemain = ''Hadi''\<rparr>],
      pemain_event =
        [\<lparr>pe_id_pemain = 7, pe_id_kategori = 1, pe_id_team = 1, pe_no_punggung = Some 10,
          pe_jumlah_gol = 1\<rparr>,
         \<lparr>pe_id_pemain = 8, pe_id_kategori = 1, pe_id_team = 2, pe_no_punggung = Some 4,
          pe_jumlah_gol = 0\<rparr>],
      match_lineup = [\<lparr>ml_id_match = 2, ml_id_pemain_event = 1\<rparr>],
      match_staff_lineup = [\<lparr>msl_id_match = 2, msl_id_staff_event = 1\<rparr>],
      teams = [\<lparr>t_id = 1, t_nama_club = ''Garuda''\<rparr>, \<lparr>t_id = 2, t_nama_club = ''Elang''\<rparr>,
               \<lparr>t_id = 3, t_nama_club = ''Rajawali''\<rparr>],
      event_teams = [], event_categories = [], klasemen = [], brackets = []\<rparr>"

text \<open>
  Eligibility in the words of the specification: the player is registered for the match's
  category under the event's team, or under the opposing team (the own-goal attribution
  of \<open>addMatchEvent\<close>).
\<close>

definition spec_player_eligible :: "database \<Rightarrow> match_row \<Rightarrow> event_data \<Rightarrow> bool" where
  "spec_player_eligible db match eventData =
     (registered db (ed_id_pemain eventData) (m_id_kategori match) (ed_id_team eventData) \<or>
      (case (if Some (ed_id_team eventData) = m_team_1 match
             then m_team_2 match else m_team_1 match) of
         None \<Rightarrow> False
       | Some opponent \<Rightarrow>
           registered db (ed_id_pemain eventData) (m_id_kategori match) opponent))"



definition unregistered_player_goal :: event_data where
  "unregistered_player_goal =
     \<lparr>ed_id_team = 1, ed_id_pemain = 5, ed_jenis = ''GOL'', ed_menit = 30\<rparr>"

definition score_payload :: update_data where
  "score_payload =
     \<lparr>ud_waktu = None, ud_status = None, ud_grup = None,
      ud_skor_1 = Some 7, ud_skor_2 = None\<rparr>"

definition correction_payload :: update_data where
  "correction_payload =
     \<lparr>ud_waktu = None, ud_status = Some ''selesai'', ud_grup = None,
      ud_skor_1 = Some 7, ud_skor_2 = None\<rparr>"

text \<open>
  A store with a group A of four teams and a group B of one team, the options of a round
  robin for each (match day at second 0 of the epoch, kickoff at 13:00:00 of that day,
  default interval), and a host whose time zone is UTC.
\<close>

definition example_group_store :: database where
  "example_group_store =
     \<lparr>matches = [], matches_seq = 0, match_events = [], match_events_seq = 0,
      pemain = [], pemain_event = [], match_lineup = [], match_staff_lineup = [],
      teams = [\<lparr>t_id = 1, t_nama_club = ''Garuda''\<rparr>, \<lparr>t_id = 2, t_nama_club = ''Elang''\<rparr>,
               \<lparr>t_id = 3, t_nama_club = ''Rajawali''\<rparr>, \<lparr>t_id = 4, t_nama_club = ''Merpati''\<rparr>,
               \<lparr>t_id = 5, t_nama_club = ''Cendrawasih''\<rparr>],
      event_teams = [\<lparr>et_id_team = 1, et_id_kategori = 1, et_grup = ''A''\<rparr>,
                     \<lparr>et_id_team = 2, et_id_kategori = 1, et_grup = ''A''\<rparr>,
                     \<lparr>et_id_team = 3, et_id_kategori = 1, et_grup = ''A''\<rparr>,
                     \<lparr>et_id_team = 4, et_id_kategori = 1, et_grup = ''A''\<rparr>,
                     \<lparr>et_id_team = 5, et_id_kategori = 1, et_grup = ''B''\<rparr>],
      event_categories = [], klasemen = [], brackets = []\<rparr>"

definition example_group_options :: group_options where
  "example_group_options =
     \<lparr>go_id_kategori = 1, go_grup = ''A'', go_match_day_start = Some 0,
      go_kickoff = Some 46800000, go_jeda_menit = None\<rparr>"

definition single_team_options :: group_options where
  "single_team_options =
     \<lparr>go_id_kategori = 1, go_grup = ''B'', go_match_day_start = Some 0,
      go_kickoff = Some 46800000, go_jeda_menit = None\<rparr>"

definition utc_zone :: timezone where
  "utc_zone = \<lparr>tz_offset_utc = (\<lambda>t. 0), tz_offset_local = (\<lambda>t. 0)\<rparr>"

text \<open>
  A host whose clock is one hour ahead of UTC until 02:00 UTC of the first day of the
  epoch and on UTC from then on; a local time that occurs twice is read with the earlier
  offset.
\<close>

definition autumn_zone :: timezone where
  "autumn_zone =
     \<lparr>tz_offset_utc = (\<lambda>t. if t < 7200000 then 3600000 else 0),
      tz_offset_local = (\<lambda>t. if t < 10800000 then 3600000 else 0)\<rparr>"

text \<open>
  A store for bracket seeding: category 1 is \<open>final_four\<close> with the standings
  A (9 points, +5) and C (6, +1) in group X, B (9, +2) and D (3, -1) in group Y;
  category 2 is not \<open>final_four\<close>; category 3 is \<open>final_four\<close> with a single team.
\<close>

definition example_bracket_store :: database where
  "example_bracket_store =
     \<lparr>matches = [], matches_seq = 0, match_events = [], match_events_seq = 0,
      pemain = [], pemain_event = [], match_lineup = [], match_staff_lineup = [],
      teams = [\<lparr>t_id = 1, t_nama_club = ''A''\<rparr>, \<lparr>t_id = 2, t_nama_club = ''B''\<rparr>,
               \<lparr>t_id = 3, t_nama_club = ''C''\<rparr>, \<lparr>t_id = 4, t_nama_club = ''D''\<rparr>],
      event_teams = [\<lparr>et_id_team = 1, et_id_kategori = 1, et_grup = ''X''\<rparr>,
                     \<lparr>et_id_team = 2, et_id_kategori = 1, et_grup = ''Y''\<rparr>,
                     \<lparr>et_id_team = 3, et_id_kategori = 1, et_grup = ''X''\<rparr>,
                     \<lparr>et_id_team = 4, et_id_kategori = 1, et_grup = ''Y''\<rparr>,
                     \<lparr>et_id_team = 1, et_id_kategori = 3, et_grup = ''X''\<rparr>],
      event_categories = [\<lparr>ec_id = 1, ec_tipe_final = ''final_four''\<rparr>,
                          \<lparr>ec_id = 2, ec_tipe_final = ''liga''\<rparr>,
                          \<lparr>ec_id = 3, ec_tipe_final = ''final_four''\<rparr>],
      klasemen = [\<lparr>k_id_team = 4, k_id_kategori = 1, k_point = 3, k_selisih = - 1, k_goal_masuk = 2\<rparr>,
                  \<lparr>k_id_team = 3, k_id_kategori = 1, k_point = 6, k_selisih = 1, k_goal_masuk = 4\<rparr>,
                  \<lparr>k_id_team = 2, k_id_kategori = 1, k_point = 9, k_selisih = 2, k_goal_masuk = 5\<rparr>,
                  \<lparr>k_id_team = 1, k_id_kategori = 1, k_point = 9, k_selisih = 5, k_goal_masuk = 7\<rparr>,
                  \<lparr>k_id_team = 1, k_id_kategori = 3, k_point = 9, k_selisih = 5, k_goal_masuk = 7\<rparr>],
      brackets = []\<rparr>"

text \<open>The number of handshakes of an origin that were admitted.\<close>

definition admitted :: "bool list \<Rightarrow> (string \<times> int) list \<Rightarrow> string \<Rightarrow> nat" where
  "admitted oks hs clientId = length (filter (\<lambda>(ok, h). ok \<and> fst h = clientId) (zip oks hs))"

section \<open>Transactions and lookups\<close>

lemma find_map_upd:
  "(\<And>m. m_id (f m) = m_id m) \<Longrightarrow>
   find (\<lambda>m. m_id m = i) (map (\<lambda>m. if m_id m = i then f m else m) ms) =
   map_option f (find (\<lambda>m. m_id m = i) ms)"
  by (induction ms) auto

lemma transaction_Inl: "body db = Inl e \<Longrightarrow> transaction body db = (Inl e, db)"
  by (simp add: transaction_def)

lemma transaction_Inr: "body db = Inr (r, db') \<Longrightarrow> transaction body db = (Inr r, db')"
  by (simp add: transaction_def)

lemma transaction_rollback: "transaction body db = (Inl e, db') \<Longrightarrow> db' = db"
  by (auto simp: transaction_def split: sum.splits)

lemma find_filter_neq: "find (\<lambda>m. m_id m = i) (filter (\<lambda>m. m_id m \<noteq> i) ms) = None"
  by (induction ms) auto

lemma example_live: "getMatchById example_store 1 = Some example_live_match"
  by (simp add: getMatchById_def example_store_def example_live_match_def)

lemma example_finished: "getMatchById example_store 2 = Some example_finished_match"
  by (simp add: getMatchById_def example_store_def example_live_match_def
      example_finished_match_def)

section \<open>Deleting a match\<close>

text \<open>
  Claim C10. \<open>deleteMatch\<close> on an existing match throws (400, "Cannot delete match in
  progress") and leaves the store as it was when the match is \<open>sedang_main\<close>; in every
  other status, \<open>selesai\<close> included, it returns \<open>true\<close> and the committed store has no
  row of that match left in \<open>matches\<close>, \<open>match_events\<close>, \<open>match_lineup\<close> and
  \<open>match_staff_lineup\<close>, every other row being kept.
\<close>

theorem deleteMatch_live_refused_else_cascades:
  assumes "getMatchById db i = Some m"
  shows "(m_status m = ''sedang_main'' \<longrightarrow>
            deleteMatch db i userId = (Inl (AppError ''Cannot delete match in progress'' 400), db)) \<and>
         (m_status m \<noteq> ''sedang_main'' \<longrightarrow>
            (\<exists>db'. deleteMatch db i userId = (Inr True, db') \<and>
               getMatchById db' i = None \<and>
               matches db' = filter (\<lambda>r. m_id r \<noteq> i) (matches db) \<and>
               match_events db' = filter (\<lambda>e. me_id_match e \<noteq> i) (match_events db) \<and>
               match_lineup db' = filter (\<lambda>l. ml_id_match l \<noteq> i) (match_lineup db) \<and>
               match_staff_lineup db' =
                 filter (\<lambda>l. msl_id_match l \<noteq> i) (match_staff_lineup db)))"
proof (cases "m_status m = ''sedang_main''")
  case True
  with assms have "deleteMatch_body i userId db = Inl (AppError ''Cannot delete match in progress'' 400)"
    by (simp add: deleteMatch_body_def)
  with True show ?thesis
    by (simp add: deleteMatch_def transaction_Inl)
next
  case False
  from assms have "\<exists>r \<in> set (matches db). m_id r = i"
    by (auto simp: getMatchById_def find_Some_iff)
  then have pos: "0 < length (filter (\<lambda>r. m_id r = i) (matches db))"
    by (simp add: filter_empty_conv)
  define db' where "db' = db\<lparr>match_events := filter (\<lambda>e. me_id_match e \<noteq> i) (match_events db),
      match_lineup := filter (\<lambda>l. ml_id_match l \<noteq> i) (match_lineup db),
      match_staff_lineup := filter (\<lambda>l. msl_id_match l \<noteq> i) (match_staff_lineup db),
      matches := filter (\<lambda>r. m_id r \<noteq> i) (matches db)\<rparr>"
  from assms False pos have "deleteMatch_body i userId db = Inr (True, db')"
    by (simp add: deleteMatch_body_def Let_def db'_def)
  then have "deleteMatch db i userId = (Inr True, db')"
    by (simp add: deleteMatch_def transaction_Inr)
  moreover have "getMatchById db' i = None"
    by (simp add: getMatchById_def db'_def find_filter_neq)
  ultimately show ?thesis
    using False by (simp add: db'_def)
qed

theorem deleteMatch_witness:
  "getMatchById example_store 1 = Some example_live_match \<and>
   deleteMatch example_store 1 9 =
     (Inl (AppError ''Cannot delete match in progress'' 400), example_store) \<and>
   getMatchById example_store 2 = Some example_finished_match \<and>
   m_status example_finished_match = ''selesai'' \<and>
   (\<exists>db'. deleteMatch example_store 2 9 = (Inr True, db') \<and>
      matches db' = [example_live_match] \<and> match_events db' = [] \<and>
      match_lineup db' = [] \<and> match_staff_lineup db' = [])"
  using deleteMatch_live_refused_else_cascades [OF example_live, of 9]
    deleteMatch_live_refused_else_cascades [OF example_finished, of 9]
    example_live example_finished
  by (auto simp: example_store_def example_live_match_def example_finished_match_def)

section \<open>Effects of a recorded event\<close>


lemma getMatchById_updatePlayerStats [simp]:
  "getMatchById (updatePlayerStats db p k j) i = getMatchById db i"
  by (simp add: getMatchById_def updatePlayerStats_def)

lemma getMatchById_insertMatchEvent [simp]:
  "getMatchById (snd (insertMatchEvent db i m ev u)) j = getMatchById db j"
  by (simp add: getMatchById_def insertMatchEvent_def Let_def)


lemma first_of_query [simp]:
  "first_element (connection_query columns rows) = Some (Rows rows)"
  by (simp add: first_element_def connection_query_def)










lemmas run_defs = addMatchEvent_def transaction_def addMatchEvent_body_def
  getMatchById_def playerQuery_def insertMatchEvent_def updateScoreFromEvent_def
  updatePlayerStats_def eventDetailQuery_def example_store_def example_live_match_def
  example_finished_match_def Let_def




section \<open>The score invariant\<close>







section \<open>The player check\<close>

lemma addMatchEvent_player_check_passes:
  "fst (addMatchEvent db i ev u) \<noteq> Inl (AppError ''Player not found in this match'' 400)"
  by (simp add: addMatchEvent_def addMatchEvent_body_def transaction_def Let_def split_beta
      split: option.splits)

text \<open>
  Claim C2. The live match of teams 1 and 2 in category 1, and a goal for team 1 by
  player 5, who has no \<open>pemain_event\<close> row at all: the query of the player check selects
  no row, the specification's condition refuses the player, and \<open>addMatchEvent\<close> returns
  normally, with the event row inserted and \<open>skor_1\<close> raised to 1. The check tests the
  first element of the result of \<open>connection.query\<close>, which is the array of rows and not a
  row; whatever the store, the match and the event, the call does not throw (400, "Player
  not found in this match").
\<close>

theorem unregistered_player_event_is_recorded:
  "getMatchById example_store 1 = Some example_live_match \<and>
   m_status example_live_match = ''sedang_main'' \<and>
   playerQuery example_store (ed_id_pemain unregistered_player_goal) example_live_match = [] \<and>
   \<not> spec_player_eligible example_store example_live_match unregistered_player_goal \<and>
   (\<exists>db' m'. addMatchEvent example_store 1 unregistered_player_goal 9 =
        (Inr (Some (Rows [\<lparr>det_event = \<lparr>me_id = 2, me_id_match = 1, me_id_kategori = 1,
                                          me_id_team = 1, me_id_pemain = 5, me_jenis = ''GOL'',
                                          me_menit = 30, me_created_by = 9\<rparr>,
                            det_nama_pemain = ''Eko'', det_no_punggung = None,
                            det_team_name = ''Garuda''\<rparr>])), db') \<and>
      match_events db' = match_events example_store @
        [\<lparr>me_id = 2, me_id_match = 1, me_id_kategori = 1, me_id_team = 1, me_id_pemain = 5,
          me_jenis = ''GOL'', me_menit = 30, me_created_by = 9\<rparr>] \<and>
      getMatchById db' 1 = Some m' \<and> m_skor_1 m' = 1 \<and> m_skor_2 m' = 0) \<and>
   (\<forall>db i ev u. fst (addMatchEvent db i ev u) \<noteq>
      Inl (AppError ''Player not found in this match'' 400))"
proof -
  have "\<forall>db i ev u. fst (addMatchEvent db i ev u) \<noteq>
      Inl (AppError ''Player not found in this match'' 400)"
    by (simp add: addMatchEvent_player_check_passes)
  moreover have "getMatchById example_store 1 = Some example_live_match"
    by (rule example_live)
  moreover have "m_status example_live_match = ''sedang_main''"
    by (simp add: example_live_match_def)
  moreover have
    "playerQuery example_store (ed_id_pemain unregistered_player_goal) example_live_match = []"
    by (simp add: playerQuery_def unregistered_player_goal_def example_store_def)
  moreover have
    "\<not> spec_player_eligible example_store example_live_match unregistered_player_goal"
    by (simp add: spec_player_eligible_def registered_def unregistered_player_goal_def
        example_store_def example_live_match_def)
  moreover have "\<exists>db' m'. addMatchEvent example_store 1 unregistered_player_goal 9 =
        (Inr (Some (Rows [\<lparr>det_event = \<lparr>me_id = 2, me_id_match = 1, me_id_kategori = 1,
                                          me_id_team = 1, me_id_pemain = 5, me_jenis = ''GOL'',
                                          me_menit = 30, me_created_by = 9\<rparr>,
                            det_nama_pemain = ''Eko'', det_no_punggung = None,
                            det_team_name = ''Garuda''\<rparr>])), db') \<and>
      match_events db' = match_events example_store @
        [\<lparr>me_id = 2, me_id_match = 1, me_id_kategori = 1, me_id_team = 1, me_id_pemain = 5,
          me_jenis = ''GOL'', me_menit = 30, me_created_by = 9\<rparr>] \<and>
      getMatchById db' 1 = Some m' \<and> m_skor_1 m' = 1 \<and> m_skor_2 m' = 0"
    by (simp add: run_defs unregistered_player_goal_def)
  ultimately show ?thesis by (intro conjI)
qed

section \<open>Finished matches\<close>

lemma m_id_set_fields [simp]: "m_id (set_fields upd u m) = m_id m"
  by (simp add: set_fields_def)

text \<open>
  Claim C3, as amended. On a \<open>selesai\<close> match, \<open>updateMatch\<close> throws (400, "Cannot modify
  finished match") and leaves the store as it was whenever the request body does not
  itself carry \<open>status: 'selesai'\<close>; a body that carries it is the permitted correction:
  its fields are written and the match stays \<open>selesai\<close>.
\<close>

theorem updateMatch_on_finished:
  assumes m: "getMatchById db i = Some m" and fin: "m_status m = ''selesai''"
  shows "(ud_status upd \<noteq> Some ''selesai'' \<longrightarrow>
            updateMatch db i upd u =
              (Inl (AppError ''Cannot modify finished match'' 400), db)) \<and>
         (ud_status upd = Some ''selesai'' \<longrightarrow>
            (\<exists>r db'. updateMatch db i upd u = (Inr r, db') \<and>
               getMatchById db' i = Some (set_fields upd u m) \<and>
               m_status (set_fields upd u m) = ''selesai''))"
proof (cases "ud_status upd = Some ''selesai''")
  case False
  with m fin have "updateMatch_body i upd u db = Inl (AppError ''Cannot modify finished match'' 400)"
    by (simp add: updateMatch_body_def)
  with False show ?thesis by (simp add: updateMatch_def transaction_Inl)
next
  case True
  define db' where "db' = db\<lparr>matches :=
      map (\<lambda>r. if m_id r = i then set_fields upd u r else r) (matches db)\<rparr>"
  have g: "getMatchById db' i = Some (set_fields upd u m)"
    using m by (simp add: db'_def getMatchById_def find_map_upd)
  from m fin True have "updateMatch_body i upd u db = Inr (Some m, db')"
    by (simp add: updateMatch_body_def Let_def db'_def)
  then have "updateMatch db i upd u = (Inr (Some m), db')"
    by (simp add: updateMatch_def transaction_Inr)
  with True g show ?thesis by (simp add: set_fields_def)
qed

theorem updateMatch_on_finished_witness:
  "getMatchById example_store 2 = Some example_finished_match \<and>
   m_status example_finished_match = ''selesai'' \<and>
   ud_status score_payload \<noteq> Some ''selesai'' \<and>
   updateMatch example_store 2 score_payload 9 =
     (Inl (AppError ''Cannot modify finished match'' 400), example_store) \<and>
   ud_status correction_payload = Some ''selesai'' \<and>
   (\<exists>r db'. updateMatch example_store 2 correction_payload 9 = (Inr r, db') \<and>
      getMatchById db' 2 = Some (set_fields correction_payload 9 example_finished_match))"
proof -
  have f: "m_status example_finished_match = ''selesai''"
    by (simp add: example_finished_match_def)
  have p: "ud_status score_payload \<noteq> Some ''selesai''"
    "ud_status correction_payload = Some ''selesai''"
    by (simp_all add: score_payload_def correction_payload_def)
  from updateMatch_on_finished [OF example_finished f, of score_payload 9]
    updateMatch_on_finished [OF example_finished f, of correction_payload 9] p f example_finished
  show ?thesis by blast
qed

text \<open>
  The claim as stated fails: on the finished match of the example store, \<open>updateScore\<close>
  (which never reads the status) overrides the score to 5-5, and \<open>updateMatch\<close> with a
  body carrying \<open>status: 'selesai'\<close> rewrites \<open>skor_1\<close>.
\<close>

theorem finished_match_still_mutable_counterexample:
  "getMatchById example_store 2 = Some example_finished_match \<and>
   m_status example_finished_match = ''selesai'' \<and>
   (\<exists>r db' m'. updateScore example_store 2 5 5 9 = (Inr r, db') \<and>
      getMatchById db' 2 = Some m' \<and> m_status m' = ''selesai'' \<and>
      m_skor_1 m' = 5 \<and> m_skor_2 m' = 5) \<and>
   (\<exists>r db' m'. updateMatch example_store 2 correction_payload 9 = (Inr r, db') \<and>
      getMatchById db' 2 = Some m' \<and> m_skor_1 m' = 7)"
  by (simp add: updateScore_def updateScore_body_def updateMatch_def updateMatch_body_def
      transaction_def getMatchById_def Let_def example_live_match_def correction_payload_def
      set_fields_def example_store_def example_finished_match_def)

section \<open>What the schedule generator does with a query result\<close>

lemma length_connection_query [simp]: "length (connection_query columns rows) = 2"
  by (simp add: connection_query_def)

lemma nth_connection_query [simp]:
  "connection_query columns rows ! 0 = Rows rows"
  "connection_query columns rows ! Suc 0 = Fields columns"
  by (simp_all add: connection_query_def)

lemma pairings_2: "pairings 2 = [(0, 1)]"
  by (simp add: pairings_def upt_rec numeral_eq_Suc)

lemma time_parts:
  "MakeDate (Day t) (MakeTime (HourFromTime t) (MinFromTime t + k) (SecFromTime t) (msFromTime t)) =
     t + 60000 * k"
proof -
  define A where "A = t div 1000"
  define B where "B = A div 60"
  define C where "C = B div 60"
  define D where "D = C div 24"
  have b: "t div 60000 = B"
    using zdiv_zmult2_eq [of 60 t 1000] by (simp add: A_def B_def)
  have c: "t div 3600000 = C"
    using zdiv_zmult2_eq [of 60 t 60000] b by (simp add: C_def)
  have d: "t div 86400000 = D"
    using zdiv_zmult2_eq [of 24 t 3600000] c by (simp add: D_def)
  have 1: "t = 1000 * A + t mod 1000" by (simp add: A_def)
  have 2: "A = 60 * B + A mod 60" by (simp add: B_def)
  have 3: "B = 60 * C + B mod 60" by (simp add: C_def)
  have 4: "C = 24 * D + C mod 24" by (simp add: D_def)
  have "D * 86400000 + ((C mod 24) * 3600000 + (B mod 60 + k) * 60000 + (A mod 60) * 1000 + t mod 1000)
      = t + 60000 * k"
    using 1 2 3 4 by (simp add: algebra_simps)
  then show ?thesis
    unfolding MakeDate_def Day_def MakeTime_def HourFromTime_def MinFromTime_def SecFromTime_def
      msFromTime_def b c d by (simp only: A_def [symmetric])
qed

text \<open>
  How \<open>currentTime\<close> moves: the local time goes forward by \<open>jeda_menit\<close> minutes. Under a
  constant offset that is \<open>jeda_menit\<close> minutes of elapsed time, unless the result leaves
  the range of valid dates; across a change of the offset it is not (in
  \<open>autumn_zone\<close>, 90 minutes on the clock from 01:00 UTC are 150 minutes).
\<close>

lemma setMinutes_local_minutes:
  "setMinutes tz t (getMinutes tz t + k) =
     TimeClip (UTC tz (LocalTime tz t + 60000 * k))"
  by (simp add: setMinutes_def getMinutes_def Let_def time_parts)

lemma setMinutes_fixed_offset:
  assumes "tz_offset_utc tz = (\<lambda>t. c)" "tz_offset_local tz = (\<lambda>t. c)"
  shows "setMinutes tz t (getMinutes tz t + k) = TimeClip (t + 60000 * k)"
  using assms by (simp add: setMinutes_local_minutes LocalTime_def UTC_def)

lemma setMinutes_utc_zone:
  "setMinutes utc_zone t (getMinutes utc_zone t + k) = TimeClip (t + 60000 * k)"
  by (rule setMinutes_fixed_offset [of utc_zone 0]) (simp_all add: utc_zone_def)

lemma setMinutes_across_offset_change:
  "setMinutes autumn_zone 3600000 (getMinutes autumn_zone 3600000 + 90) = Some 12600000"
  by (simp add: setMinutes_local_minutes LocalTime_def UTC_def TimeClip_def autumn_zone_def)

lemma group_step_example:
  "group_step utc_zone 1 ''A'' 9 90 (Some 0) (connection_query [''id_team'', ''nama_club''] rows)
     (Inr (example_group_store, Some 46800000, [])) (0, 1) =
   Inr (example_group_store
          \<lparr>matches := [\<lparr>m_id = 1, m_id_kategori = 1, m_team_1 = None, m_team_2 = None,
                         m_waktu = Some 46800, m_grup = Some ''A'', m_status = ''belum_main'',
                         m_skor_1 = 0, m_skor_2 = 0, m_created_by = 9, m_updated_by = None\<rparr>],
           matches_seq := 1\<rparr>,
        Some 52200000,
        [\<lparr>gm_id = 1, gm_team_1 = None, gm_team_2 = None, gm_waktu = 46800, gm_grup = ''A''\<rparr>])"
  by (simp add: group_step_def Let_def datetime_second_def TimeClip_def setMinutes_utc_zone
      example_group_store_def)

lemma generateGroupMatches_body_one_fixture:
  "generateGroupMatches_body tz options userId db =
     (case go_match_day_start options of
        None \<Rightarrow> Inl (RangeError ''Invalid time value'')
      | Some day \<Rightarrow>
          (case go_kickoff options of
             None \<Rightarrow> Inl (RangeError ''Invalid time value'')
           | Some t \<Rightarrow>
               Inr ([\<lparr>gm_id = Suc (matches_seq db), gm_team_1 = None, gm_team_2 = None,
                      gm_waktu = t div 1000, gm_grup = go_grup options\<rparr>],
                    db\<lparr>matches := matches db @
                          [\<lparr>m_id = Suc (matches_seq db), m_id_kategori = go_id_kategori options,
                            m_team_1 = None, m_team_2 = None, m_waktu = Some (t div 1000),
                            m_grup = Some (go_grup options), m_status = ''belum_main'',
                            m_skor_1 = 0, m_skor_2 = 0, m_created_by = userId,
                            m_updated_by = None\<rparr>],
                        matches_seq := Suc (matches_seq db)\<rparr>)))"
  by (simp add: generateGroupMatches_body_def pairings_2 group_step_def Let_def
      datetime_second_def split: option.splits)

lemma generateGroupMatches_never_insufficient:
  "fst (generateGroupMatches tz db options userId) \<noteq>
     Inl (AppError ''Not enough teams in group to generate matches'' 400)"
  by (simp add: generateGroupMatches_def transaction_def generateGroupMatches_body_one_fixture
      split: option.splits)

text \<open>
  Claim C5. Group A of the example store has the four teams Elang, Garuda, Merpati and
  Rajawali: \<open>generateGroupMatches\<close> inserts one fixture, whose two teams are NULL, where
  the claim has the six fixtures of the round robin. Group B has a single team: the call
  inserts the same single fixture, where the claim has it throw (400, "Not enough teams in
  group to generate matches"). The source takes the result of \<open>connection.query\<close> whole as
  \<open>teams\<close>: an array of length 2 whatever the roster, whose elements have no \<open>id_team\<close>;
  whatever the store and the options, the call does not throw that error.
\<close>

theorem generateGroupMatches_one_fixture_without_teams:
  "teamsQuery example_group_store 1 ''A'' =
     [(2, ''Elang''), (1, ''Garuda''), (4, ''Merpati''), (3, ''Rajawali'')] \<and>
   generateGroupMatches utc_zone example_group_store example_group_options 9 =
     (Inr [\<lparr>gm_id = 1, gm_team_1 = None, gm_team_2 = None, gm_waktu = 46800, gm_grup = ''A''\<rparr>],
      example_group_store
        \<lparr>matches := [\<lparr>m_id = 1, m_id_kategori = 1, m_team_1 = None, m_team_2 = None,
                       m_waktu = Some 46800, m_grup = Some ''A'', m_status = ''belum_main'',
                       m_skor_1 = 0, m_skor_2 = 0, m_created_by = 9, m_updated_by = None\<rparr>],
         matches_seq := 1\<rparr>) \<and>
   teamsQuery example_group_store 1 ''B'' = [(5, ''Cendrawasih'')] \<and>
   generateGroupMatches utc_zone example_group_store single_team_options 9 =
     (Inr [\<lparr>gm_id = 1, gm_team_1 = None, gm_team_2 = None, gm_waktu = 46800, gm_grup = ''B''\<rparr>],
      example_group_store
        \<lparr>matches := [\<lparr>m_id = 1, m_id_kategori = 1, m_team_1 = None, m_team_2 = None,
                       m_waktu = Some 46800, m_grup = Some ''B'', m_status = ''belum_main'',
                       m_skor_1 = 0, m_skor_2 = 0, m_created_by = 9, m_updated_by = None\<rparr>],
         matches_seq := 1\<rparr>) \<and>
   (\<forall>tz db options userId. fst (generateGroupMatches tz db options userId) \<noteq>
      Inl (AppError ''Not enough teams in group to generate matches'' 400))"
proof -
  have "teamsQuery example_group_store 1 ''A'' =
     [(2, ''Elang''), (1, ''Garuda''), (4, ''Merpati''), (3, ''Rajawali'')]"
    by (simp add: teamsQuery_def example_group_store_def)
  moreover have "generateGroupMatches utc_zone example_group_store example_group_options 9 =
     (Inr [\<lparr>gm_id = 1, gm_team_1 = None, gm_team_2 = None, gm_waktu = 46800, gm_grup = ''A''\<rparr>],
      example_group_store
        \<lparr>matches := [\<lparr>m_id = 1, m_id_kategori = 1, m_team_1 = None, m_team_2 = None,
                       m_waktu = Some 46800, m_grup = Some ''A'', m_status = ''belum_main'',
                       m_skor_1 = 0, m_skor_2 = 0, m_created_by = 9, m_updated_by = None\<rparr>],
         matches_seq := 1\<rparr>)"
    by (simp add: generateGroupMatches_def transaction_def generateGroupMatches_body_one_fixture
        example_group_options_def example_group_store_def)
  moreover have "teamsQuery example_group_store 1 ''B'' = [(5, ''Cendrawasih'')]"
    by (simp add: teamsQuery_def example_group_store_def)
  moreover have "generateGroupMatches utc_zone example_group_store single_team_options 9 =
     (Inr [\<lparr>gm_id = 1, gm_team_1 = None, gm_team_2 = None, gm_waktu = 46800, gm_grup = ''B''\<rparr>],
      example_group_store
        \<lparr>matches := [\<lparr>m_id = 1, m_id_kategori = 1, m_team_1 = None, m_team_2 = None,
                       m_waktu = Some 46800, m_grup = Some ''B'', m_status = ''belum_main'',
                       m_skor_1 = 0, m_skor_2 = 0, m_created_by = 9, m_updated_by = None\<rparr>],
         matches_seq := 1\<rparr>)"
    by (simp add: generateGroupMatches_def transaction_def generateGroupMatches_body_one_fixture
        single_team_options_def example_group_store_def)
  moreover have "\<forall>tz db options userId. fst (generateGroupMatches tz db options userId) \<noteq>
      Inl (AppError ''Not enough teams in group to generate matches'' 400)"
    by (simp add: generateGroupMatches_never_insufficient)
  ultimately show ?thesis by (intro conjI)
qed

lemma array_index_undefined: "array_index ''undefined'' = None"
  by (simp add: array_index_def)

text \<open>
  Past the test of \<open>tipe_final\<close>, which no call passes, the grouping would visit the two
  elements of the standings result, file both under the property \<open>undefined\<close> and count
  two qualifiers, whatever the standings.
\<close>

lemma qualifiedTeams_of_query_result:
  "qualifiedTeams (connection_query columns rows) = [Rows rows, Fields columns]"
  by (simp add: qualifiedTeams_def connection_query_def add_standing_def property_key_def
      object_values_def array_index_undefined Let_def)

lemma generateBracketMatches_body_refuses:
  "generateBracketMatches_body kategori userId db =
     Inl (AppError ''Category does not support bracket generation'' 400)"
  by (simp add: generateBracketMatches_body_def)

lemma generateBracketMatches_refuses:
  "generateBracketMatches db kategori userId =
     (Inl (AppError ''Category does not support bracket generation'' 400), db)"
  by (simp add: generateBracketMatches_def transaction_def generateBracketMatches_body_refuses)

text \<open>
  Claim C6. Category 1 of the example store is \<open>final_four\<close> and its standings are those
  of the specification's example (A and C of group X, B and D of group Y, in the order
  of the query): \<open>generateBracketMatches\<close> throws (400, "Category does not support
  bracket generation") and leaves the store without any match or bracket row, where the
  claim has the semifinals A-D and B-C. The source tests \<open>category.tipe_final\<close> on the
  first element of the result of \<open>connection.query\<close>, which is the array of rows and not
  the category's row.
\<close>

theorem generateBracketMatches_example_creates_no_semifinal:
  "categoryQuery example_bracket_store 1 = [\<lparr>ec_id = 1, ec_tipe_final = ''final_four''\<rparr>] \<and>
   map (\<lambda>s. (s_nama_club s, s_grup s, s_point s, s_selisih s))
       (standingsQuery example_bracket_store 1) =
     [(''A'', ''X'', 9, 5), (''C'', ''X'', 6, 1), (''B'', ''Y'', 9, 2), (''D'', ''Y'', 3, - 1)] \<and>
   generateBracketMatches example_bracket_store 1 9 =
     (Inl (AppError ''Category does not support bracket generation'' 400),
      example_bracket_store) \<and>
   matches example_bracket_store = [] \<and> brackets example_bracket_store = []"
proof -
  have "categoryQuery example_bracket_store 1 = [\<lparr>ec_id = 1, ec_tipe_final = ''final_four''\<rparr>]"
    by (simp add: categoryQuery_def example_bracket_store_def)
  moreover have "map (\<lambda>s. (s_nama_club s, s_grup s, s_point s, s_selisih s))
       (standingsQuery example_bracket_store 1) =
     [(''A'', ''X'', 9, 5), (''C'', ''X'', 6, 1), (''B'', ''Y'', 9, 2), (''D'', ''Y'', 3, - 1)]"
    by (simp add: standingsQuery_def example_bracket_store_def)
  moreover have "generateBracketMatches example_bracket_store 1 9 =
     (Inl (AppError ''Category does not support bracket generation'' 400),
      example_bracket_store)"
    by (rule generateBracketMatches_refuses)
  moreover have "matches example_bracket_store = []" "brackets example_bracket_store = []"
    by (simp_all add: example_bracket_store_def)
  ultimately show ?thesis by (intro conjI)
qed

text \<open>
  Claim C7. Category 3 of the example store is \<open>final_four\<close> and has a single team in its
  standings, so fewer than four teams qualify: \<open>generateBracketMatches\<close> throws
  (400, "Category does not support bracket generation") where the claim has
  (400, "Not enough teams qualified for bracket"). The test of \<open>category.tipe_final\<close>
  reads an array, so it refuses every call, before the qualifiers are counted: whatever
  the store and the category, configured or not, known or not, the call throws that
  error and the store is the one before the call.
\<close>

theorem generateBracketMatches_never_counts_qualifiers:
  "categoryQuery example_bracket_store 3 = [\<lparr>ec_id = 3, ec_tipe_final = ''final_four''\<rparr>] \<and>
   length (standingsQuery example_bracket_store 3) = 1 \<and>
   generateBracketMatches example_bracket_store 3 9 =
     (Inl (AppError ''Category does not support bracket generation'' 400),
      example_bracket_store) \<and>
   (\<forall>db kategori userId. generateBracketMatches db kategori userId =
      (Inl (AppError ''Category does not support bracket generation'' 400), db))"
proof -
  have "categoryQuery example_bracket_store 3 = [\<lparr>ec_id = 3, ec_tipe_final = ''final_four''\<rparr>]"
    by (simp add: categoryQuery_def example_bracket_store_def)
  moreover have "length (standingsQuery example_bracket_store 3) = 1"
    by (simp add: standingsQuery_def example_bracket_store_def)
  moreover have "\<forall>db kategori userId. generateBracketMatches db kategori userId =
      (Inl (AppError ''Category does not support bracket generation'' 400), db)"
    by (simp add: generateBracketMatches_refuses)
  ultimately show ?thesis by simp
qed

section \<open>Room joins and their cooldown\<close>

lemma joinWithCooldown_within:
  assumes "cooldowns (sk_id socket @ room) = Some t" "now - t < 2000"
  shows "joinWithCooldown socket room cooldowns 2000 now = (socket, cooldowns)"
  using assms by (simp add: joinWithCooldown_def)

lemma joinWithCooldown_other_key:
  "room' \<noteq> room \<Longrightarrow>
   snd (joinWithCooldown socket room' cooldowns ms now) (sk_id socket @ room) =
     cooldowns (sk_id socket @ room)"
  by (simp add: joinWithCooldown_def Let_def)

lemma joinWithCooldown_id [simp]:
  "sk_id (fst (joinWithCooldown socket room cooldowns ms now)) = sk_id socket"
  by (simp add: joinWithCooldown_def Let_def)

lemma handleRoomJoining_id [simp]:
  "sk_id (fst (handleRoomJoining s msg)) = sk_id (fst s)"
  by (cases "(s, msg)" rule: handleRoomJoining.cases) simp_all

lemma handleRoomJoining_keeps_time:
  assumes c: "snd s (sk_id (fst s) @ room) = Some t"
    and early: "room_joined (fst msg) = Some room \<longrightarrow> snd msg - t < 2000"
  shows "snd (handleRoomJoining s msg) (sk_id (fst s) @ room) = Some t"
proof (cases "room_joined (fst msg) = Some room")
  case True
  with early have w: "snd msg - t < 2000" by simp
  obtain socket cooldowns where s: "s = (socket, cooldowns)" by (cases s)
  obtain m now where msg: "msg = (m, now)" by (cases msg)
  from True c w show ?thesis
    unfolding s msg by (cases m) (auto simp: joinWithCooldown_within)
next
  case False
  obtain socket cooldowns where s: "s = (socket, cooldowns)" by (cases s)
  obtain m now where msg: "msg = (m, now)" by (cases msg)
  from False c show ?thesis
    unfolding s msg by (cases m) (auto simp: joinWithCooldown_other_key)
qed

lemma foldl_handle_keeps_time:
  assumes "snd s (sk_id (fst s) @ room) = Some t"
    and "\<forall>msg\<in>set msgs. room_joined (fst msg) = Some room \<longrightarrow> snd msg - t < 2000"
  shows "snd (foldl handleRoomJoining s msgs) (sk_id (fst s) @ room) = Some t \<and>
         sk_id (fst (foldl handleRoomJoining s msgs)) = sk_id (fst s)"
  using assms
proof (induction msgs arbitrary: s)
  case Nil
  then show ?case by simp
next
  case (Cons msg msgs)
  from Cons.prems have k: "snd (handleRoomJoining s msg) (sk_id (fst s) @ room) = Some t"
    by (intro handleRoomJoining_keeps_time) auto
  have i: "sk_id (fst (handleRoomJoining s msg)) = sk_id (fst s)" by simp
  from Cons.IH [of "handleRoomJoining s msg"] k i Cons.prems(2) show ?case by simp
qed

text \<open>
  Claim C8, as amended. Let \<open>t\<close> be the time of the connection's last accepted join of a
  room (the time \<open>joinCooldowns\<close> holds for it). After any further messages of the
  connection in which every join of that room came less than 2000 ms after \<open>t\<close> (leaves
  and joins of other rooms are free), a join of the room less than 2000 ms after \<open>t\<close>
  changes nothing: the rooms of the socket and the cooldown table stay as they were, so
  a client that left in between stays out.
\<close>

theorem join_within_cooldown_of_accepted_join_is_noop:
  assumes last: "snd s (sk_id (fst s) @ room) = Some t"
    and between: "\<forall>msg\<in>set msgs. room_joined (fst msg) = Some room \<longrightarrow> snd msg - t < 2000"
    and join: "room_joined m = Some room"
    and within: "now - t < 2000"
  shows "handleRoomJoining (foldl handleRoomJoining s msgs) (m, now) =
           foldl handleRoomJoining s msgs"
proof -
  obtain socket cooldowns where r: "foldl handleRoomJoining s msgs = (socket, cooldowns)"
    by (cases "foldl handleRoomJoining s msgs")
  from foldl_handle_keeps_time [OF last between] r
  have "cooldowns (sk_id socket @ room) = Some t" by simp
  with within join show ?thesis
    unfolding r by (cases m) (auto simp: joinWithCooldown_within)
qed

lemmas socket_defs = fresh_socket_def example_messages_def joinWithCooldown_def Let_def

theorem join_within_cooldown_witness:
  "snd (handleRoomJoining fresh_socket (Join_match ''7'', 10000)) (''s1'' @ ''match_7'') = Some 10000 \<and>
   ''match_7'' \<in> sk_rooms (fst (handleRoomJoining fresh_socket (Join_match ''7'', 10000))) \<and>
   ''match_7'' \<notin> sk_rooms (fst (foldl handleRoomJoining fresh_socket
      [(Join_match ''7'', 10000), (Leave_match ''7'', 10500)])) \<and>
   handleRoomJoining (foldl handleRoomJoining fresh_socket
      [(Join_match ''7'', 10000), (Leave_match ''7'', 10500)]) (Join_match ''7'', 11500) =
     foldl handleRoomJoining fresh_socket [(Join_match ''7'', 10000), (Leave_match ''7'', 10500)]"
proof -
  let ?s = "handleRoomJoining fresh_socket (Join_match ''7'', 10000)"
  have l: "snd ?s (sk_id (fst ?s) @ ''match_7'') = Some 10000"
    by (simp add: socket_defs)
  have b: "\<forall>msg\<in>set [(Leave_match ''7'', 10500)].
      room_joined (fst msg) = Some ''match_7'' \<longrightarrow> snd msg - 10000 < 2000"
    by simp
  have j: "room_joined (Join_match ''7'') = Some ''match_7''" by simp
  from join_within_cooldown_of_accepted_join_is_noop [OF l b j, of 11500]
  have "handleRoomJoining (foldl handleRoomJoining ?s [(Leave_match ''7'', 10500)])
      (Join_match ''7'', 11500) = foldl handleRoomJoining ?s [(Leave_match ''7'', 10500)]"
    by simp
  then show ?thesis by (simp add: socket_defs)
qed

text \<open>
  The claim as stated measures the window from the previous join request. The source
  measures it from the previous accepted join: a rejected join does not restart the
  window. After a join at 10000 (accepted), a join at 11500 (rejected) and a leave, the
  join at 12500 comes 1000 ms after the previous request and is carried out.
\<close>

theorem join_after_rejected_join_counterexample:
  "example_messages ! 1 = (Join_match ''7'', 11500) \<and>
   example_messages ! 3 = (Join_match ''7'', 12500) \<and>
   (12500::int) - 11500 < 2000 \<and>
   handleRoomJoining (foldl handleRoomJoining fresh_socket (take 1 example_messages))
     (example_messages ! 1) = foldl handleRoomJoining fresh_socket (take 1 example_messages) \<and>
   ''match_7'' \<notin> sk_rooms (fst (foldl handleRoomJoining fresh_socket (take 3 example_messages))) \<and>
   ''match_7'' \<in> sk_rooms (fst (foldl handleRoomJoining fresh_socket example_messages))"
  by (simp add: socket_defs)

section \<open>Admission quota\<close>

lemma handshakes_append:
  "handshakes c (xs @ ys) =
     (fst (handshakes c xs) @ fst (handshakes (snd (handshakes c xs)) ys),
      snd (handshakes (snd (handshakes c xs)) ys))"
  by (induction xs arbitrary: c) (auto split: prod.splits)

lemma handshakes_burst:
  assumes "c a = Some e" "now - ce_lastReset e \<le> 60000" "ce_count e + n \<le> 50"
  shows "handshakes c (replicate n (a, now)) =
           (replicate n True, c(a \<mapsto> e\<lparr>ce_count := ce_count e + n\<rparr>))"
  using assms
proof (induction n arbitrary: c e)
  case 0
  then show ?case by (simp add: map_upd_triv)
next
  case (Suc n)
  let ?e = "e\<lparr>ce_count := ce_count e + 1\<rparr>"
  from Suc.prems have step: "rateLimit c a now = (True, c(a \<mapsto> ?e))"
    by (simp add: rateLimit_def)
  have "handshakes (c(a \<mapsto> ?e)) (replicate n (a, now)) =
          (replicate n True, (c(a \<mapsto> ?e))(a \<mapsto> ?e\<lparr>ce_count := ce_count ?e + n\<rparr>))"
    using Suc.prems by (intro Suc.IH) simp_all
  then have "handshakes (c(a \<mapsto> ?e)) (replicate n (a, now)) =
          (replicate n True, c(a \<mapsto> e\<lparr>ce_count := ce_count e + Suc n\<rparr>))"
    by simp
  with step show ?case by (auto simp: fun_eq_iff)
qed

lemma example_handshakes_all_admitted:
  "fst (handshakes Map.empty example_handshakes) = replicate 100 True"
proof -
  let ?a = "''10.0.0.1''"
  define c1 where "c1 = [?a \<mapsto> \<lparr>ce_count = 1, ce_lastReset = 0\<rparr>]"
  define c2 where "c2 = [?a \<mapsto> \<lparr>ce_count = 50, ce_lastReset = 0\<rparr>]"
  define c3 where "c3 = [?a \<mapsto> \<lparr>ce_count = 1, ce_lastReset = 60001\<rparr>]"
  define c4 where "c4 = [?a \<mapsto> \<lparr>ce_count = 50, ce_lastReset = 60001\<rparr>]"
  have s1: "rateLimit Map.empty ?a 0 = (True, c1)" by (simp add: rateLimit_def c1_def)
  have s2: "handshakes c1 (replicate 49 (?a, 59000)) = (replicate 49 True, c2)"
    using handshakes_burst [of c1 ?a "\<lparr>ce_count = 1, ce_lastReset = 0\<rparr>" 59000 49]
    by (simp add: c1_def c2_def)
  have s3: "rateLimit c2 ?a 60001 = (True, c3)" by (simp add: rateLimit_def c2_def c3_def)
  have s4: "handshakes c3 (replicate 49 (?a, 60001)) = (replicate 49 True, c4)"
    using handshakes_burst [of c3 ?a "\<lparr>ce_count = 1, ce_lastReset = 60001\<rparr>" 60001 49]
    by (simp add: c3_def c4_def)
  have s5: "handshakes c2 (replicate 50 (?a, 60001)) = (replicate 50 True, c4)"
  proof -
    have "replicate 50 (?a, 60001::int) = (?a, 60001) # replicate 49 (?a, 60001)"
      "replicate 50 True = True # replicate 49 True"
      by (simp_all add: numeral_eq_Suc)
    then show ?thesis by (simp add: s3 s4 del: replicate.simps)
  qed
  have s6: "handshakes c1 (replicate 49 (?a, 59000) @ replicate 50 (?a, 60001)) =
      (replicate 49 True @ replicate 50 True, c4)"
    by (simp only: handshakes_append s2 s5 fst_conv snd_conv)
  have "fst (handshakes Map.empty example_handshakes) = True # replicate 49 True @ replicate 50 True"
    unfolding example_handshakes_def by (simp only: handshakes.simps s1 s6 fst_conv snd_conv prod.case)
  also have "\<dots> = replicate 100 True"
  proof -
    have "replicate 100 True = replicate (1 + 49 + 50) True" by simp
    also have "\<dots> = True # replicate 49 True @ replicate 50 True"
      by (simp only: replicate_add) simp
    finally show ?thesis by simp
  qed
  finally show ?thesis .
qed

lemma rateLimit_other: "b \<noteq> a \<Longrightarrow> snd (rateLimit c a now) b = c b"
  by (auto simp: rateLimit_def split: option.splits)

lemma admitted_Cons:
  "admitted (ok # oks) (h # hs) a = (if ok \<and> fst h = a then 1 else 0) + admitted oks hs a"
  by (simp add: admitted_def)

lemma window_quota:
  assumes "c a = Some e" "ce_count e \<le> 50"
    and "\<forall>h\<in>set hs. fst h = a \<longrightarrow> snd h - ce_lastReset e \<le> 60000"
  shows "ce_count e + admitted (fst (handshakes c hs)) hs a \<le> 50"
  using assms
proof (induction hs arbitrary: c e)
  case Nil
  then show ?case by (simp add: admitted_def)
next
  case (Cons h hs)
  obtain ok c1 where r: "rateLimit c (fst h) (snd h) = (ok, c1)" by (cases "rateLimit c (fst h) (snd h)")
  obtain oks c2 where hs: "handshakes c1 hs = (oks, c2)" by (cases "handshakes c1 hs")
  have run: "fst (handshakes c (h # hs)) = ok # oks" by (simp add: r hs)
  show ?case
  proof (cases "fst h = a")
    case False
    with r rateLimit_other [of a "fst h" c "snd h"] Cons.prems(1) have "c1 a = Some e" by simp
    from Cons.IH [of c1 e] this Cons.prems(2) Cons.prems(3) hs False show ?thesis
      unfolding run admitted_Cons by simp
  next
    case True
    with Cons.prems(3) have w: "snd h - ce_lastReset e \<le> 60000" by simp
    show ?thesis
    proof (cases "50 \<le> ce_count e")
      case full: True
      with r True w Cons.prems(1) have "ok = False" "c1 = c"
        by (auto simp: rateLimit_def)
      with Cons.IH [of c e] Cons.prems hs show ?thesis
        unfolding run admitted_Cons by simp
    next
      case False
      let ?e = "e\<lparr>ce_count := ce_count e + 1\<rparr>"
      from False r True w Cons.prems(1) have ok: "ok = True" and c1: "c1 = c(a \<mapsto> ?e)"
        by (auto simp: rateLimit_def)
      have "ce_count ?e + admitted (fst (handshakes c1 hs)) hs a \<le> 50"
        using False Cons.prems(3) Cons.IH [of c1 ?e] by (simp add: c1 fun_upd_def)
      with hs ok True show ?thesis
        unfolding run admitted_Cons by simp
    qed
  qed
qed

text \<open>
  Claim C9, as amended. Admission of an origin's handshakes is a fixed-window counter: a
  handshake is refused exactly when the origin's entry is at most 60000 ms old and
  already counts 50; a refusal leaves the table as it was (the middleware touches
  nothing else, so no connection is closed); the first handshake more than 60000 ms
  after the window's start is admitted and starts a new window with count 1; entries of
  other origins are never touched; and of the handshakes of a new origin that arrive no
  later than 60000 ms after its first one, at most 50 are admitted.
\<close>

theorem rateLimit_fixed_window:
  "(fst (rateLimit c a now) = False \<longleftrightarrow>
      (\<exists>e. c a = Some e \<and> now - ce_lastReset e \<le> 60000 \<and> 50 \<le> ce_count e)) \<and>
   (fst (rateLimit c a now) = False \<longrightarrow> snd (rateLimit c a now) = c) \<and>
   (\<forall>e. c a = Some e \<and> 60000 < now - ce_lastReset e \<longrightarrow>
      rateLimit c a now = (True, c(a \<mapsto> \<lparr>ce_count = 1, ce_lastReset = now\<rparr>))) \<and>
   (\<forall>b. b \<noteq> a \<longrightarrow> snd (rateLimit c a now) b = c b) \<and>
   (c a = None \<and> (\<forall>h\<in>set hs. fst h = a \<longrightarrow> snd h - now \<le> 60000) \<longrightarrow>
      admitted (fst (handshakes c ((a, now) # hs))) ((a, now) # hs) a \<le> 50)"
proof (intro conjI allI impI)
  show "fst (rateLimit c a now) = False \<longleftrightarrow>
      (\<exists>e. c a = Some e \<and> now - ce_lastReset e \<le> 60000 \<and> 50 \<le> ce_count e)"
    by (auto simp: rateLimit_def split: option.splits)
  show "snd (rateLimit c a now) = c" if "fst (rateLimit c a now) = False"
    using that by (auto simp: rateLimit_def split: option.splits if_splits)
  show "rateLimit c a now = (True, c(a \<mapsto> \<lparr>ce_count = 1, ce_lastReset = now\<rparr>))"
    if "c a = Some e \<and> 60000 < now - ce_lastReset e" for e
    using that by (simp add: rateLimit_def)
  show "snd (rateLimit c a now) b = c b" if "b \<noteq> a" for b
    using that by (rule rateLimit_other)
next
  assume a: "c a = None \<and> (\<forall>h\<in>set hs. fst h = a \<longrightarrow> snd h - now \<le> 60000)"
  let ?e = "\<lparr>ce_count = 1, ce_lastReset = now\<rparr>"
  let ?c1 = "c(a \<mapsto> ?e)"
  from a have first: "rateLimit c a now = (True, ?c1)" by (simp add: rateLimit_def)
  obtain oks c2 where hs: "handshakes ?c1 hs = (oks, c2)" by (cases "handshakes ?c1 hs")
  have "ce_count ?e + admitted (fst (handshakes ?c1 hs)) hs a \<le> 50"
    using a window_quota [of ?c1 a ?e hs] by (simp add: fun_upd_def)
  with first hs show "admitted (fst (handshakes c ((a, now) # hs))) ((a, now) # hs) a \<le> 50"
    by (simp add: admitted_Cons)
qed

theorem rateLimit_fixed_window_witness:
  "rateLimit [''10.0.0.1'' \<mapsto> \<lparr>ce_count = 50, ce_lastReset = 0\<rparr>] ''10.0.0.1'' 60000 =
     (False, [''10.0.0.1'' \<mapsto> \<lparr>ce_count = 50, ce_lastReset = 0\<rparr>]) \<and>
   rateLimit [''10.0.0.1'' \<mapsto> \<lparr>ce_count = 50, ce_lastReset = 0\<rparr>] ''10.0.0.1'' 60001 =
     (True, [''10.0.0.1'' \<mapsto> \<lparr>ce_count = 1, ce_lastReset = 60001\<rparr>]) \<and>
   snd (rateLimit [''10.0.0.1'' \<mapsto> \<lparr>ce_count = 50, ce_lastReset = 0\<rparr>] ''10.0.0.2'' 5)
     ''10.0.0.1'' = Some \<lparr>ce_count = 50, ce_lastReset = 0\<rparr> \<and>
   admitted (fst (handshakes Map.empty ((''10.0.0.1'', 0) # replicate 60 (''10.0.0.1'', 59000))))
     ((''10.0.0.1'', 0) # replicate 60 (''10.0.0.1'', 59000)) ''10.0.0.1'' \<le> 50"
proof -
  define c :: "string \<rightharpoonup> client_entry" where
    "c = [''10.0.0.1'' \<mapsto> \<lparr>ce_count = 50, ce_lastReset = 0\<rparr>]"
  define hs :: "(string \<times> int) list" where "hs = replicate 60 (''10.0.0.1'', 59000)"
  have full: "\<exists>e. c ''10.0.0.1'' = Some e \<and> 60000 - ce_lastReset e \<le> 60000 \<and> 50 \<le> ce_count e"
    by (simp add: c_def)
  have expired: "c ''10.0.0.1'' = Some \<lparr>ce_count = 50, ce_lastReset = 0\<rparr> \<and>
      60000 < 60001 - ce_lastReset \<lparr>ce_count = 50, ce_lastReset = 0\<rparr>"
    by (simp add: c_def)
  have other: "''10.0.0.1'' \<noteq> ''10.0.0.2''" by simp
  have fresh: "(Map.empty :: string \<rightharpoonup> client_entry) ''10.0.0.1'' = None \<and>
      (\<forall>h\<in>set hs. fst h = ''10.0.0.1'' \<longrightarrow> snd h - 0 \<le> 60000)"
    by (simp add: hs_def)
  note t1 = rateLimit_fixed_window [of c "''10.0.0.1''" 60000 "[]"]
  have f: "fst (rateLimit c ''10.0.0.1'' 60000) = False"
    by (rule t1 [THEN conjunct1, THEN iffD2, OF full])
  have "snd (rateLimit c ''10.0.0.1'' 60000) = c"
    by (rule t1 [THEN conjunct2, THEN conjunct1, THEN mp, OF f])
  with f have r1: "rateLimit c ''10.0.0.1'' 60000 = (False, c)"
    by (simp add: prod_eq_iff)
  note t2 = rateLimit_fixed_window [of c "''10.0.0.1''" 60001 "[]"]
  have "rateLimit c ''10.0.0.1'' 60001 =
      (True, c(''10.0.0.1'' \<mapsto> \<lparr>ce_count = 1, ce_lastReset = 60001\<rparr>))"
    by (rule t2 [THEN conjunct2, THEN conjunct2, THEN conjunct1, THEN spec, THEN mp, OF expired])
  then have r2: "rateLimit c ''10.0.0.1'' 60001 =
      (True, [''10.0.0.1'' \<mapsto> \<lparr>ce_count = 1, ce_lastReset = 60001\<rparr>])"
    by (simp add: c_def)
  note t3 = rateLimit_fixed_window [of c "''10.0.0.2''" 5 "[]"]
  have "snd (rateLimit c ''10.0.0.2'' 5) ''10.0.0.1'' = c ''10.0.0.1''"
    by (rule t3 [THEN conjunct2, THEN conjunct2, THEN conjunct2, THEN conjunct1, THEN spec,
          THEN mp, OF other])
  then have r3: "snd (rateLimit c ''10.0.0.2'' 5) ''10.0.0.1'' =
      Some \<lparr>ce_count = 50, ce_lastReset = 0\<rparr>"
    by (simp add: c_def)
  note t4 = rateLimit_fixed_window [of Map.empty "''10.0.0.1''" 0 hs]
  have r4: "admitted (fst (handshakes Map.empty ((''10.0.0.1'', 0) # hs)))
     ((''10.0.0.1'', 0) # hs) ''10.0.0.1'' \<le> 50"
    by (rule t4 [THEN conjunct2, THEN conjunct2, THEN conjunct2, THEN conjunct2, THEN mp,
          OF fresh])
  show ?thesis
    using r1 r2 r3 r4 unfolding c_def hs_def by (intro conjI)
qed

lemma zip_replicate_True: "zip (replicate (length hs) True) hs = map (Pair True) hs"
  by (induction hs) auto

lemma length_filter_replicate:
  "length (filter P (replicate n x)) = (if P x then n else 0)"
  by (induction n) auto

text \<open>
  The claim as stated calls the quota sliding: no interval of one minute would then hold
  more than 50 admissions of an origin. The counter is reset as a whole instead: an
  origin that connects once at 0 s, 49 times at 59 s and 50 times at 60.001 s is admitted
  every time, 99 times within the minute that ends at 60.001 s.
\<close>

theorem not_a_sliding_window_counterexample:
  "fst (handshakes Map.empty example_handshakes) = replicate 100 True \<and>
   (60001::int) - 60000 = 1 \<and>
   admitted_between (fst (handshakes Map.empty example_handshakes)) example_handshakes
     ''10.0.0.1'' 1 60001 = 99"
proof -
  have l: "length example_handshakes = 100" by (simp add: example_handshakes_def)
  have z: "zip (replicate 100 True) example_handshakes = map (Pair True) example_handshakes"
    using zip_replicate_True [of example_handshakes] by (simp only: l)
  have "admitted_between (replicate 100 True) example_handshakes ''10.0.0.1'' 1 60001 =
        length (filter (\<lambda>h. fst h = ''10.0.0.1'' \<and> 1 < snd h \<and> snd h \<le> 60001) example_handshakes)"
    unfolding admitted_between_def z by (simp add: filter_map comp_def)
  also have "\<dots> = 99"
    unfolding example_handshakes_def
    by (simp add: length_filter_replicate del: replicate.simps)
  finally have "admitted_between (replicate 100 True) example_handshakes ''10.0.0.1'' 1 60001 = 99" .
  then show ?thesis
    unfolding example_handshakes_all_admitted by simp
qed

end
